theory Spec2Isabelle
  imports Complex_Main
begin

section \<open>JavaScript values, property keys and style objects\<close>

text \<open>
  The input parser of jsPDF-AutoTable (\<^verbatim>\<open>src/inputParser.ts\<close>) works on dynamically
  typed user input. The embedding keeps the shapes the parser distinguishes:
  scalars, arrays and objects. Numbers are modelled as \<^typ>\<open>real\<close>: rounding,
  \<^verbatim>\<open>NaN\<close> and the infinities of IEEE doubles are not part of the model.
\<close>

datatype jsval =
    Undefined
  | Null
  | JBool bool
  | JNum real
  | JStr string
  | JArr "jsval list"
  | JObj "(string \<times> jsval) list"

text \<open>JavaScript truthiness, as used by \<^verbatim>\<open>||\<close>, \<^verbatim>\<open>&&\<close> and \<^verbatim>\<open>if\<close>.\<close>

fun truthy :: "jsval \<Rightarrow> bool" where
  "truthy Undefined = False"
| "truthy Null = False"
| "truthy (JBool b) = b"
| "truthy (JNum n) = (n \<noteq> 0)"
| "truthy (JStr s) = (s \<noteq> [])"
| "truthy (JArr xs) = True"
| "truthy (JObj kvs) = True"

text \<open>
  A style object maps a style property name to its value; a property that the
  object does not own is \<^term>\<open>None\<close>.
\<close>

type_synonym styles = "string \<rightharpoonup> jsval"

text \<open>
  \<^verbatim>\<open>assign(target, ...sources)\<close> of \<^verbatim>\<open>polyfills.ts\<close> (the file is not among the
  sources; this is \<^verbatim>\<open>Object.assign\<close>): every own property of each source is
  copied onto the target, sources taken from left to right, so a later source
  overrides an earlier one property by property.
\<close>

definition assign :: "('k \<rightharpoonup> 'v) \<Rightarrow> ('k \<rightharpoonup> 'v) list \<Rightarrow> ('k \<rightharpoonup> 'v)" where
  "assign target sources = foldl (++) target sources"

datatype Section = Head | Body | Foot

section \<open>Cells\<close>

text \<open>
  The text of a cell is an array of lines; a hook may leave a single string
  there, which the width pass wraps into an array (line 229).
\<close>

datatype CellText = Lines "string list" | Single string

text \<open>What a user writes for a cell: a scalar, or an object with content, spans and styles.\<close>

record CellDef =
  content :: jsval
  colSpan :: "int option"
  rowSpan :: "int option"
  styles :: styles

datatype CellType = Scalar jsval | CellObj CellDef

text \<open>
  What a user writes for a column: a string or a number (the legacy form), or a
  descriptor object.
\<close>

datatype key = KStr string | KNum nat

record ColumnDef =
  dataKey :: "key option"
  key :: "key option"
  header :: "CellType option"
  footer :: "CellType option"
  title :: "CellType option"

datatype ColumnOption = ColStr string | ColNum nat | ColObj ColumnDef

text \<open>
  The raw value a cell is constructed from is a user's cell value or, in a
  synthesized head row, the column's own raw value (line 311).
  A missing array element or object property reads as \<^verbatim>\<open>undefined\<close>.
\<close>

datatype RawCell = Given CellType | ColumnData ColumnOption

record Cell =
  raw :: RawCell
  styles :: styles
  text' :: CellText
  section' :: Section
  colSpan :: int
  rowSpan :: int
  contentWidth :: real
  wrappedWidth :: real
  minReadableWidth :: real
  minWidth :: real

section \<open>Property keys\<close>

text \<open>
  A property key of a JavaScript object is a string; a number used as a key is
  converted to its decimal numeral, so \<^verbatim>\<open>cells[0]\<close> and \<^verbatim>\<open>cells["0"]\<close> are the
  same property.
\<close>

definition digitChar :: "nat \<Rightarrow> char" where
  "digitChar d = ''0123456789'' ! d"

function natString :: "nat \<Rightarrow> string" where
  "natString n = (if n < 10 then [digitChar n] else natString (n div 10) @ [digitChar (n mod 10)])"
  by pat_completeness auto
termination
  by (relation "measure id") auto

declare natString.simps [simp del]

fun propKey :: "key \<Rightarrow> string" where
  "propKey (KStr s) = s"
| "propKey (KNum n) = natString n"

fun truthyKey :: "key \<Rightarrow> bool" where
  "truthyKey (KStr s) = (s \<noteq> [])"
| "truthyKey (KNum n) = (n \<noteq> 0)"

section \<open>Rows, columns and options\<close>

text \<open>
  A raw row is an array of cell values or an object from column keys to cell
  values. The object's entries are listed in the order of \<^verbatim>\<open>Object.keys\<close>, each
  key once.
\<close>

datatype RawRow = Positional "RawCell list" | Keyed "(string \<times> RawCell) list"

text \<open>
  \<^verbatim>\<open>new Column(dataKey, raw, index)\<close>. The class is declared in \<^verbatim>\<open>models.ts\<close>,
  which is not among the sources; its widths start at zero, the value the
  aggregation pass tests with \<^verbatim>\<open>!column.minWidth\<close>.
\<close>

record Column =
  dataKey :: key
  raw :: ColumnOption
  index :: nat
  wrappedWidth :: real
  minReadableWidth :: real
  minWidth :: real

definition newColumn :: "key \<Rightarrow> ColumnOption \<Rightarrow> nat \<Rightarrow> Column" where
  "newColumn k r i =
     \<lparr>Column.dataKey = k, Column.raw = r, Column.index = i,
      Column.wrappedWidth = 0, Column.minReadableWidth = 0, Column.minWidth = 0\<rparr>"

text \<open>
  \<^verbatim>\<open>new Row(raw, index, section)\<close>. \<^verbatim>\<open>row.cells\<close> maps a property key to a cell
  object, and the parser stores one object under two keys (lines 203--204), so
  the embedding keeps the objects apart from the keys: \<open>cells\<close> maps a key to
  the reference of a cell, \<open>objects\<close> maps a reference to the cell's current
  state. The reference of a cell is the index of the column it was created at.
\<close>

record Row =
  raw :: RawRow
  index :: nat
  section' :: Section
  cells :: "string \<rightharpoonup> nat"
  objects :: "nat \<rightharpoonup> Cell"

definition newRow :: "RawRow \<Rightarrow> nat \<Rightarrow> Section \<Rightarrow> Row" where
  "newRow r i s =
     \<lparr>Row.raw = r, Row.index = i, Row.section' = s, Row.cells = Map.empty,
      Row.objects = Map.empty\<rparr>"

text \<open>\<^verbatim>\<open>row.cells[k]\<close>: the cell object stored under a key, if any.\<close>

definition cellAt :: "Row \<Rightarrow> key \<Rightarrow> Cell option" where
  "cellAt row k = (case Row.cells row (propKey k) of None \<Rightarrow> None | Some r \<Rightarrow> Row.objects row r)"

text \<open>A theme: the style objects \<^verbatim>\<open>getTheme(name)\<close> of \<^verbatim>\<open>config.ts\<close> returns.\<close>

record Theme =
  table :: styles
  head :: styles
  body :: styles
  foot :: styles
  alternateRow :: styles

text \<open>The user's styles after the three option objects are merged (lines 48--59).\<close>

record StylesProps =
  styles :: styles
  headStyles :: styles
  bodyStyles :: styles
  footStyles :: styles
  alternateRowStyles :: styles
  columnStyles :: "string \<rightharpoonup> styles"

type_synonym CellHook = "Cell \<Rightarrow> Row \<Rightarrow> Column \<Rightarrow> Cell"

typedecl PageHook

text \<open>
  The options a user passes, and the settings they are merged into. A property
  is absent from an options object, present with the value \<^verbatim>\<open>null\<close> or
  \<^verbatim>\<open>undefined\<close>, or present with a value. \<open>others\<close> holds the options this
  parser never reads.
\<close>

datatype 'a setting = Absent | Nullish | Value 'a

record UserOptions =
  tableId :: "jsval setting"
  theme :: "string setting"
  useCss :: "bool setting"
  margin :: "jsval setting"
  startY :: "jsval setting"
  tableWidth :: "jsval setting"
  html :: "string setting"
  includeHiddenHtml :: "bool setting"
  columns :: "ColumnOption list setting"
  head :: "RawRow list setting"
  body :: "RawRow list setting"
  foot :: "RawRow list setting"
  styles :: "styles setting"
  headStyles :: "styles setting"
  bodyStyles :: "styles setting"
  footStyles :: "styles setting"
  alternateRowStyles :: "styles setting"
  columnStyles :: "(string \<rightharpoonup> styles) setting"
  didParseCell :: "CellHook setting"
  willDrawCell :: "CellHook setting"
  didDrawCell :: "CellHook setting"
  didDrawPage :: "PageHook setting"
  others :: "string \<rightharpoonup> jsval"

section \<open>Resolving the columns: \<^verbatim>\<open>getTableColumns\<close> (lines 323--350)\<close>

text \<open>\<^verbatim>\<open>input.dataKey || input.key || index\<close> (line 326).\<close>

definition columnKey :: "ColumnOption \<Rightarrow> nat \<Rightarrow> key" where
  "columnKey input i =
     (case input of
        ColObj d \<Rightarrow>
          (case ColumnDef.dataKey d of
             Some k \<Rightarrow> if truthyKey k then k
                       else (case ColumnDef.key d of
                               Some k' \<Rightarrow> if truthyKey k' then k' else KNum i
                             | None \<Rightarrow> KNum i)
           | None \<Rightarrow>
               (case ColumnDef.key d of
                  Some k' \<Rightarrow> if truthyKey k' then k' else KNum i
                | None \<Rightarrow> KNum i))
      | _ \<Rightarrow> KNum i)"

text \<open>
  \<^verbatim>\<open>firstRow[key] && firstRow[key].colSpan ? firstRow[key].colSpan : 1\<close>
  (line 337): the declared column span when it is truthy, one otherwise.
\<close>

definition declaredColSpan :: "RawCell \<Rightarrow> int" where
  "declaredColSpan c =
     (case c of
        Given (CellObj d) \<Rightarrow>
          (case CellDef.colSpan d of Some n \<Rightarrow> (if n \<noteq> 0 then n else 1) | None \<Rightarrow> 1)
      | _ \<Rightarrow> 1)"

text \<open>\<^verbatim>\<open>settings.head[0] || settings.body[0] || settings.foot[0] || []\<close> (line 331).\<close>

definition firstRow :: "RawRow list \<Rightarrow> RawRow list \<Rightarrow> RawRow list \<Rightarrow> RawRow" where
  "firstRow hd_rows bd_rows ft_rows =
     (case hd_rows of r # _ \<Rightarrow> r
      | [] \<Rightarrow> (case bd_rows of r # _ \<Rightarrow> r
               | [] \<Rightarrow> (case ft_rows of r # _ \<Rightarrow> r | [] \<Rightarrow> Positional [])))"

text \<open>
  The inner loop (lines 338--346) for one key of the first row: \<open>arr\<close> tells
  an array row from an object row, \<open>k\<close> is the key as \<^verbatim>\<open>Object.keys\<close> gives it.
\<close>

definition columnId :: "bool \<Rightarrow> string \<Rightarrow> nat \<Rightarrow> Column list \<Rightarrow> key" where
  "columnId arr k i cols =
     (if arr then KNum (length cols)
      else KStr (k @ (if i > 0 then ''_'' @ natString i else [])))"

definition keyRaw :: "key \<Rightarrow> ColumnOption" where
  "keyRaw k = (case k of KStr s \<Rightarrow> ColStr s | KNum n \<Rightarrow> ColNum n)"

definition pushColumn :: "bool \<Rightarrow> string \<Rightarrow> Column list \<Rightarrow> nat \<Rightarrow> Column list" where
  "pushColumn arr k cols i =
     (let ident = columnId arr k i cols
      in cols @ [newColumn ident (keyRaw ident) (length cols)])"

definition pushColumns :: "bool \<Rightarrow> Column list \<Rightarrow> string \<times> RawCell \<Rightarrow> Column list" where
  "pushColumns arr cols0 kv =
     foldl (pushColumn arr (fst kv)) cols0 [0 ..< nat (declaredColSpan (snd kv))]"

text \<open>\<^verbatim>\<open>Object.keys(row)\<close> with the values: the positions of an array, the keys of an object.\<close>

definition entries :: "RawRow \<Rightarrow> (string \<times> RawCell) list" where
  "entries r =
     (case r of
        Positional cs \<Rightarrow> map (\<lambda>i. (natString i, cs ! i)) [0 ..< length cs]
      | Keyed kvs \<Rightarrow> kvs)"

definition isArray :: "RawRow \<Rightarrow> bool" where
  "isArray r = (case r of Positional _ \<Rightarrow> True | Keyed _ \<Rightarrow> False)"

text \<open>
  \<open>getTableColumns\<close> reads \<^verbatim>\<open>settings.head\<close>, \<^verbatim>\<open>body\<close> and \<^verbatim>\<open>foot\<close> after
  \<open>parseInput\<close> has made each of them an array (lines 95--97).
\<close>

definition sectionRowsOf :: "RawRow list setting \<Rightarrow> RawRow list" where
  "sectionRowsOf rows = (case rows of Value rs \<Rightarrow> rs | _ \<Rightarrow> [])"

definition getTableColumns :: "UserOptions \<Rightarrow> Column list" where
  "getTableColumns settings =
     (case UserOptions.columns settings of
        Value inputs \<Rightarrow>
          map (\<lambda>(input, i). newColumn (columnKey input i) input i)
              (zip inputs [0 ..< length inputs])
      | _ \<Rightarrow>
          let first = firstRow (sectionRowsOf (UserOptions.head settings))
                               (sectionRowsOf (UserOptions.body settings))
                               (sectionRowsOf (UserOptions.foot settings))
          in foldl (pushColumns (isArray first)) []
                   (filter (\<lambda>kv. fst kv \<noteq> ''_element'') (entries first)))"

section \<open>The table and the host\<close>

record HookProps =
  didParseCell :: "CellHook list"
  willDrawCell :: "CellHook list"
  didDrawCell :: "CellHook list"
  didDrawPage :: "PageHook list"

record MarginPadding =
  top :: real
  right :: real
  bottom :: real
  left :: real

text \<open>
  \<^verbatim>\<open>new Table(id, startY, settings, styles, userStyles, hooks, margin)\<close>. The class is
  declared in \<^verbatim>\<open>models.ts\<close>, which is not among the sources; a new table has no
  columns and no rows, and the parser assigns its three widths (lines 101--114).
\<close>

record Table =
  id :: "jsval setting"
  startY :: jsval
  settings :: UserOptions
  styles :: StylesProps
  userStyles :: styles
  hooks :: HookProps
  margin :: MarginPadding
  columns :: "Column list"
  head :: "Row list"
  body :: "Row list"
  foot :: "Row list"
  wrappedWidth :: real
  minWidth :: real
  width :: real

definition newTable ::
  "jsval setting \<Rightarrow> jsval \<Rightarrow> UserOptions \<Rightarrow> StylesProps \<Rightarrow> styles \<Rightarrow> HookProps \<Rightarrow> MarginPadding \<Rightarrow> Table"
where
  "newTable i y st sp us hk mg =
     \<lparr>Table.id = i, Table.startY = y, Table.settings = st, Table.styles = sp,
      Table.userStyles = us, Table.hooks = hk, Table.margin = mg, Table.columns = [],
      Table.head = [], Table.body = [], Table.foot = [],
      Table.wrappedWidth = 0, Table.minWidth = 0, Table.width = 0\<rparr>"

text \<open>
  The parser reads the document and the library's other modules only through
  the functions below; they are parameters of the embedding.
  \<^item> \<^verbatim>\<open>getStringWidth(text, styles)\<close> of \<^verbatim>\<open>common.ts\<close>;
  \<^item> \<^verbatim>\<open>cell.padding('horizontal')\<close> and \<^verbatim>\<open>new Cell(raw, styles, section)\<close> of
    \<^verbatim>\<open>models.ts\<close>;
  \<^item> \<^verbatim>\<open>state().scaleFactor()\<close>, \<^verbatim>\<open>state().pageWidth()\<close> and \<^verbatim>\<open>state().pageNumber()\<close>
    of \<^verbatim>\<open>state.ts\<close>;
  \<^item> \<^verbatim>\<open>getTheme(name)\<close>, \<^verbatim>\<open>defaultStyles()\<close> and \<^verbatim>\<open>defaultConfig()\<close> of \<^verbatim>\<open>config.ts\<close>;
  \<^item> \<^verbatim>\<open>marginOrPadding(value, defaultValue)\<close> of \<^verbatim>\<open>common.ts\<close>;
  \<^item> \<^verbatim>\<open>parseHtml(input, includeHiddenHtml, useCss)\<close> of \<^verbatim>\<open>htmlParser.ts\<close>, which
    returns the head, body and foot rows of an HTML table, or nothing;
  \<^item> the document: \<^verbatim>\<open>doc.previousAutoTable\<close>, \<^verbatim>\<open>doc.getTextColor\<close> (absent in old
    versions of jsPDF), the font size, the font style and the font name.
  \<^verbatim>\<open>validateInput\<close> of \<^verbatim>\<open>inputValidator.ts\<close> only reports on the options; it is
  left out.
\<close>

text \<open>The fields of \<^verbatim>\<open>doc.previousAutoTable\<close> that \<open>getStartY\<close> reads.\<close>

record PreviousTable =
  finalY :: real
  startPageNumber :: int
  pageNumber :: int

record Host =
  getStringWidth :: "string list \<Rightarrow> styles \<Rightarrow> real"
  paddingHorizontal :: "Cell \<Rightarrow> real"
  scaleFactor :: real
  getTheme :: "string setting \<Rightarrow> Theme"
  defaultStyles :: styles
  newCell :: "RawCell \<Rightarrow> styles \<Rightarrow> Section \<Rightarrow> Cell"
  defaultConfig :: UserOptions
  marginOrPadding :: "jsval \<Rightarrow> jsval \<Rightarrow> MarginPadding"
  parseHtml :: "string \<Rightarrow> bool setting \<Rightarrow> bool setting \<Rightarrow> (RawRow list \<times> RawRow list \<times> RawRow list) option"
  pageWidth :: real
  currentPageNumber :: int
  previousAutoTable :: "PreviousTable option"
  docTextColor :: "jsval option"
  docFontSize :: jsval
  docFontStyle :: jsval
  docFontName :: jsval

section \<open>The style cascade: \<^verbatim>\<open>cellStyles\<close> (lines 352--371)\<close>

text \<open>\<^verbatim>\<open>theme[sectionName]\<close> and \<^verbatim>\<open>table.styles[`${sectionName}Styles`]\<close>.\<close>

definition themeSection :: "Theme \<Rightarrow> Section \<Rightarrow> styles" where
  "themeSection th s = (case s of Head \<Rightarrow> Theme.head th | Body \<Rightarrow> Theme.body th | Foot \<Rightarrow> Theme.foot th)"

definition sectionStyles :: "StylesProps \<Rightarrow> Section \<Rightarrow> styles" where
  "sectionStyles sp s =
     (case s of Head \<Rightarrow> StylesProps.headStyles sp
      | Body \<Rightarrow> StylesProps.bodyStyles sp
      | Foot \<Rightarrow> StylesProps.footStyles sp)"

text \<open>
  \<^verbatim>\<open>columnStyles[column.dataKey] || columnStyles[column.index] || {}\<close>
  (lines 361--364 and 279--282); an entry is a style object, which is truthy.
\<close>

definition columnStylesOf :: "StylesProps \<Rightarrow> Column \<Rightarrow> styles" where
  "columnStylesOf sp column =
     (case StylesProps.columnStyles sp (propKey (Column.dataKey column)) of
        Some st \<Rightarrow> st
      | None \<Rightarrow>
          (case StylesProps.columnStyles sp (propKey (KNum (Column.index column))) of
             Some st \<Rightarrow> st
           | None \<Rightarrow> Map.empty))"

text \<open>\<open>cellStyles\<close> reads the table under construction from the global state (line 353).\<close>

definition cellStyles :: "Host \<Rightarrow> Table \<Rightarrow> Section \<Rightarrow> Column \<Rightarrow> nat \<Rightarrow> styles" where
  "cellStyles h tbl sectionName column rowIndex =
     (let thm = getTheme h (UserOptions.theme (Table.settings tbl));
          otherStyles =
            [Theme.table thm,
             themeSection thm sectionName,
             StylesProps.styles (Table.styles tbl),
             sectionStyles (Table.styles tbl) sectionName];
          columnStyles = columnStylesOf (Table.styles tbl) column;
          colStyles = (if sectionName = Body then columnStyles else Map.empty);
          rowStyles =
            (if sectionName = Body \<and> rowIndex mod 2 = 0
             then assign Map.empty
                    [Theme.alternateRow thm, StylesProps.alternateRowStyles (Table.styles tbl)]
             else Map.empty)
      in assign (defaultStyles h) (otherStyles @ [rowStyles, colStyles]))"


section \<open>Synthesizing a head or foot row (lines 303--321)\<close>

fun truthyCell :: "CellType \<Rightarrow> bool" where
  "truthyCell (Scalar v) = truthy v"
| "truthyCell (CellObj d) = True"

fun truthyColumn :: "ColumnOption \<Rightarrow> bool" where
  "truthyColumn (ColStr s) = (s \<noteq> [])"
| "truthyColumn (ColNum n) = (n \<noteq> 0)"
| "truthyColumn (ColObj d) = True"

fun truthyRaw :: "RawCell \<Rightarrow> bool" where
  "truthyRaw (Given c) = truthyCell c"
| "truthyRaw (ColumnData c) = truthyColumn c"

text \<open>\<^verbatim>\<open>columnData && columnData.header ? columnData.header : columnData\<close> (line 311).\<close>

definition headValue :: "ColumnOption \<Rightarrow> RawCell" where
  "headValue columnData =
     (case columnData of
        ColObj d \<Rightarrow>
          (case ColumnDef.header d of
             Some c \<Rightarrow> if truthyCell c then Given c else ColumnData columnData
           | None \<Rightarrow> ColumnData columnData)
      | _ \<Rightarrow> ColumnData columnData)"

text \<open>\<^verbatim>\<open>columnData.footer\<close>, when it is truthy (line 315).\<close>

definition footValue :: "ColumnOption \<Rightarrow> RawCell option" where
  "footValue columnData =
     (case columnData of
        ColObj d \<Rightarrow>
          (case ColumnDef.footer d of
             Some c \<Rightarrow> if truthyCell c then Some (Given c) else None
           | None \<Rightarrow> None)
      | _ \<Rightarrow> None)"

text \<open>\<^verbatim>\<open>obj[k] = v\<close> on an object given by its entries: an own key keeps its place.\<close>

fun setProp :: "(string \<times> 'v) list \<Rightarrow> string \<Rightarrow> 'v \<Rightarrow> (string \<times> 'v) list" where
  "setProp [] k v = [(k, v)]"
| "setProp ((k', v') # kvs) k v =
     (if k' = k then (k, v) # kvs else (k', v') # setProp kvs k v)"

text \<open>The callback of \<^verbatim>\<open>table.columns.forEach\<close> (lines 308--318).\<close>

definition addColumnData ::
  "Section \<Rightarrow> (string \<times> RawCell) list \<Rightarrow> Column \<Rightarrow> (string \<times> RawCell) list"
where
  "addColumnData sectionName sectionRow col =
     (let columnData = Column.raw col
      in if sectionName = Head then
           (let val = headValue columnData
            in if truthyRaw val
               then setProp sectionRow (propKey (Column.dataKey col)) val
               else sectionRow)
         else
           (case (if sectionName = Foot then footValue columnData else None) of
              Some val \<Rightarrow> setProp sectionRow (propKey (Column.dataKey col)) val
            | None \<Rightarrow> sectionRow))"

definition generateSectionRowFromColumnData :: "Table \<Rightarrow> Section \<Rightarrow> RawRow option" where
  "generateSectionRowFromColumnData tbl sectionName =
     (let sectionRow = foldl (addColumnData sectionName) [] (Table.columns tbl)
      in if length sectionRow > 0 then Some (Keyed sectionRow) else None)"

section \<open>Building the grid (lines 163--222)\<close>

text \<open>
  The span ledger \<^verbatim>\<open>rowSpansLeftForColumn\<close>: for a column index, the rows a cell
  anchored above still covers and the columns that cell spans beyond its own.
\<close>

record SpanEntry =
  left :: int
  times' :: int

text \<open>The variables of one pass over the columns for one row.\<close>

record RowScan =
  rowSpansLeftForColumn :: "nat \<rightharpoonup> SpanEntry"
  row :: Row
  skippedRowForRowSpans :: int
  colSpansAdded :: int
  columnSpansLeft :: int

text \<open>Reading an array element or an object property; a missing one is \<^verbatim>\<open>undefined\<close>.\<close>

definition arrayGet :: "RawCell list \<Rightarrow> int \<Rightarrow> RawCell" where
  "arrayGet cs i = (if 0 \<le> i \<and> nat i < length cs then cs ! nat i else Given (Scalar Undefined))"

definition objectGet :: "(string \<times> RawCell) list \<Rightarrow> string \<Rightarrow> RawCell" where
  "objectGet kvs k = (case map_of kvs k of Some v \<Rightarrow> v | None \<Rightarrow> Given (Scalar Undefined))"

text \<open>
  \<^verbatim>\<open>rowSpansLeftForColumn[i] == null || rowSpansLeftForColumn[i].left === 0\<close>
  (lines 188--189).
\<close>

definition noRowSpanLeft :: "(nat \<rightharpoonup> SpanEntry) \<Rightarrow> nat \<Rightarrow> bool" where
  "noRowSpanLeft ledger i = (case ledger i of None \<Rightarrow> True | Some e \<Rightarrow> SpanEntry.left e = 0)"

text \<open>
  The raw value of a new cell (lines 192--198): an array row is read at a
  position, an object row at the column's \<open>dataKey\<close>.
\<close>

definition rawCellFor :: "RawRow \<Rightarrow> Column \<Rightarrow> int \<Rightarrow> RawCell" where
  "rawCellFor rawRow column pos =
     (case rawRow of
        Positional cs \<Rightarrow> arrayGet cs pos
      | Keyed kvs \<Rightarrow> objectGet kvs (propKey (Column.dataKey column)))"

text \<open>The body of the loop over the columns (lines 187--219).\<close>

definition scanColumn ::
  "Host \<Rightarrow> Table \<Rightarrow> Section \<Rightarrow> RawRow \<Rightarrow> nat \<Rightarrow> RowScan \<Rightarrow> Column \<Rightarrow> RowScan"
where
  "scanColumn h tbl sectionName rawRow rowIndex st column =
     (let i = Column.index column;
          ledger = rowSpansLeftForColumn st
      in if noRowSpanLeft ledger i then
           (if columnSpansLeft st = 0 then
              (let rawCell =
                     rawCellFor rawRow column
                       (int i - colSpansAdded st - skippedRowForRowSpans st);
                   styles = cellStyles h tbl sectionName column rowIndex;
                   cell = newCell h rawCell styles sectionName;
                   r = row st;
                   r' = r\<lparr>Row.cells :=
                            ((Row.cells r)(propKey (Column.dataKey column) \<mapsto> i))
                              (propKey (KNum i) \<mapsto> i),
                          Row.objects := (Row.objects r)(i \<mapsto> cell)\<rparr>
               in st\<lparr>row := r',
                     columnSpansLeft := Cell.colSpan cell - 1,
                     rowSpansLeftForColumn :=
                       ledger(i \<mapsto> \<lparr>SpanEntry.left = Cell.rowSpan cell - 1,
                                    SpanEntry.times' = Cell.colSpan cell - 1\<rparr>)\<rparr>)
            else st\<lparr>columnSpansLeft := columnSpansLeft st - 1,
                    colSpansAdded := colSpansAdded st + 1\<rparr>)
         else
           (case ledger i of
              Some e \<Rightarrow>
                st\<lparr>rowSpansLeftForColumn := ledger(i \<mapsto> e\<lparr>SpanEntry.left := SpanEntry.left e - 1\<rparr>),
                   columnSpansLeft := SpanEntry.times' e,
                   skippedRowForRowSpans := skippedRowForRowSpans st + 1\<rparr>
            | None \<Rightarrow> st))"

text \<open>One raw row (lines 179--221): the ledger goes in and comes out.\<close>

definition scanRow ::
  "Host \<Rightarrow> Table \<Rightarrow> Section \<Rightarrow> (nat \<rightharpoonup> SpanEntry) \<Rightarrow> RawRow \<Rightarrow> nat \<Rightarrow> RowScan"
where
  "scanRow h tbl sectionName ledger rawRow rowIndex =
     foldl (scanColumn h tbl sectionName rawRow rowIndex)
       \<lparr>rowSpansLeftForColumn = ledger, row = newRow rawRow rowIndex sectionName,
        skippedRowForRowSpans = 0, colSpansAdded = 0, columnSpansLeft = 0\<rparr>
       (Table.columns tbl)"

text \<open>The rows of one section, first to last, with the ledger they leave.\<close>

fun scanRows ::
  "Host \<Rightarrow> Table \<Rightarrow> Section \<Rightarrow> (nat \<rightharpoonup> SpanEntry) \<Rightarrow> RawRow list \<Rightarrow> nat \<Rightarrow> Row list"
where
  "scanRows h tbl sectionName ledger [] rowIndex = []"
| "scanRows h tbl sectionName ledger (rawRow # rest) rowIndex =
     (let st = scanRow h tbl sectionName ledger rawRow rowIndex
      in row st # scanRows h tbl sectionName (rowSpansLeftForColumn st) rest (Suc rowIndex))"


text \<open>\<^verbatim>\<open>settings[sectionName]\<close> and \<^verbatim>\<open>table[sectionName]\<close>.\<close>

definition settingsSection :: "UserOptions \<Rightarrow> Section \<Rightarrow> RawRow list" where
  "settingsSection st s =
     sectionRowsOf (case s of Head \<Rightarrow> UserOptions.head st
                    | Body \<Rightarrow> UserOptions.body st
                    | Foot \<Rightarrow> UserOptions.foot st)"

definition setSettingsSection :: "UserOptions \<Rightarrow> Section \<Rightarrow> RawRow list \<Rightarrow> UserOptions" where
  "setSettingsSection st s rows =
     (case s of Head \<Rightarrow> st\<lparr>UserOptions.head := Value rows\<rparr>
      | Body \<Rightarrow> st\<lparr>UserOptions.body := Value rows\<rparr>
      | Foot \<Rightarrow> st\<lparr>UserOptions.foot := Value rows\<rparr>)"

definition tableSection :: "Table \<Rightarrow> Section \<Rightarrow> Row list" where
  "tableSection tbl s =
     (case s of Head \<Rightarrow> Table.head tbl | Body \<Rightarrow> Table.body tbl | Foot \<Rightarrow> Table.foot tbl)"

definition setTableSection :: "Table \<Rightarrow> Section \<Rightarrow> Row list \<Rightarrow> Table" where
  "setTableSection tbl s rows =
     (case s of Head \<Rightarrow> tbl\<lparr>Table.head := rows\<rparr>
      | Body \<Rightarrow> tbl\<lparr>Table.body := rows\<rparr>
      | Foot \<Rightarrow> tbl\<lparr>Table.foot := rows\<rparr>)"

text \<open>
  The synthesis step (lines 167--178): a row is generated from the columns
  when the section has no row, columns were given and the section is not the
  body; \<open>generateSectionRowFromColumnData\<close> may still return \<^verbatim>\<open>null\<close>.
\<close>

definition generatedRow :: "Table \<Rightarrow> Section \<Rightarrow> RawRow option" where
  "generatedRow tbl sectionName =
     (let sectionRows = settingsSection (Table.settings tbl) sectionName
      in if length sectionRows = 0
            \<and> (case UserOptions.columns (Table.settings tbl) of Value _ \<Rightarrow> True | _ \<Rightarrow> False)
            \<and> sectionName \<noteq> Body
         then generateSectionRowFromColumnData tbl sectionName
         else None)"

text \<open>
  One turn of the loop over the sections. The settings are the object the
  table holds (line 81), and \<^verbatim>\<open>sectionRows.push\<close> changes the array the settings
  refer to, so the pushed row shows in \<^verbatim>\<open>table.settings\<close>.
\<close>

definition parseSection :: "Host \<Rightarrow> Table \<Rightarrow> Section \<Rightarrow> Table" where
  "parseSection h tbl sectionName =
     (let sectionRows0 = settingsSection (Table.settings tbl) sectionName;
          (sectionRows, tbl1) =
            (case generatedRow tbl sectionName of
               Some sectionRow \<Rightarrow>
                 (sectionRows0 @ [sectionRow],
                  tbl\<lparr>Table.settings :=
                        setSettingsSection (Table.settings tbl) sectionName
                          (sectionRows0 @ [sectionRow])\<rparr>)
             | None \<Rightarrow> (sectionRows0, tbl))
      in setTableSection tbl1 sectionName
           (tableSection tbl1 sectionName
              @ scanRows h tbl1 sectionName Map.empty sectionRows 0))"

section \<open>The cell width pass (lines 229--254)\<close>

definition arrayText :: "CellText \<Rightarrow> string list" where
  "arrayText t = (case t of Lines ls \<Rightarrow> ls | Single s \<Rightarrow> [s])"

text \<open>\<^verbatim>\<open>lines.join(' ')\<close>.\<close>

fun joinSpace :: "string list \<Rightarrow> string" where
  "joinSpace [] = []"
| "joinSpace [l] = l"
| "joinSpace (l # ls) = l @ '' '' @ joinSpace ls"

text \<open>
  \<^verbatim>\<open>s.split(/\s+/)\<close> on the ASCII white space characters: a maximal run of
  white space separates two words; a run at either end leaves an empty word
  there, and the empty string splits into one empty word.
\<close>

definition isSpace :: "char \<Rightarrow> bool" where
  "isSpace c = (c \<in> set [CHR '' '', CHR 0x09, CHR 0x0A, CHR 0x0B, CHR 0x0C, CHR 0x0D])"

function splitSpaces :: "string \<Rightarrow> string list" where
  "splitSpaces [] = [[]]"
| "splitSpaces (c # cs) =
     (if isSpace c then [] # splitSpaces (dropWhile isSpace cs)
      else (case splitSpaces cs of [] \<Rightarrow> [[c]] | w # ws \<Rightarrow> (c # w) # ws))"
  by pat_completeness auto
termination
  by (relation "measure length") (auto simp: le_imp_less_Suc length_dropWhile_le)

text \<open>
  \<^verbatim>\<open>cell.styles.minCellWidth || defaultMinWidth\<close>: the style's value when it is
  truthy, the default otherwise. The style interface types \<^verbatim>\<open>minCellWidth\<close> as a
  number; the number zero is falsy.
\<close>

definition numberOr :: "jsval option \<Rightarrow> real \<Rightarrow> real" where
  "numberOr v d = (case v of Some (JNum m) \<Rightarrow> (if m \<noteq> 0 then m else d) | _ \<Rightarrow> d)"

text \<open>The body of the first loop over all cells, after the hooks have run.\<close>

definition measureCell :: "Host \<Rightarrow> Cell \<Rightarrow> Cell" where
  "measureCell h cell0 =
     (let lines = arrayText (Cell.text' cell0);
          cell1 = cell0\<lparr>Cell.text' := Lines lines\<rparr>;
          cell2 = cell1\<lparr>Cell.contentWidth :=
                    getStringWidth h lines (Cell.styles cell1) + paddingHorizontal h cell1\<rparr>;
          longestWordWidth = getStringWidth h (splitSpaces (joinSpace lines)) (Cell.styles cell2);
          cell3 = cell2\<lparr>Cell.minReadableWidth := longestWordWidth + paddingHorizontal h cell2\<rparr>
      in (case Cell.styles cell3 ''cellWidth'' of
            Some (JNum w) \<Rightarrow> cell3\<lparr>Cell.minWidth := w, Cell.wrappedWidth := w\<rparr>
          | cw \<Rightarrow>
              if cw = Some (JStr ''wrap'')
              then cell3\<lparr>Cell.minWidth := Cell.contentWidth cell3,
                         Cell.wrappedWidth := Cell.contentWidth cell3\<rparr>
              else
                let defaultMinWidth = 10 / scaleFactor h;
                    cell4 = cell3\<lparr>Cell.minWidth :=
                              numberOr (Cell.styles cell3 ''minCellWidth'') defaultMinWidth\<rparr>;
                    cell5 = cell4\<lparr>Cell.wrappedWidth := Cell.contentWidth cell4\<rparr>
                in if Cell.minWidth cell5 > Cell.wrappedWidth cell5
                   then cell5\<lparr>Cell.wrappedWidth := Cell.minWidth cell5\<rparr>
                   else cell5))"

text \<open>
  \<^verbatim>\<open>table.callCellHooks(hooks, cell, row, column)\<close> of \<^verbatim>\<open>models.ts\<close> (not among the
  sources): the hooks run in registration order, each on the cell as the one
  before left it. \<open>r\<close> is the reference of the cell in the row.
\<close>

definition callCellHooks :: "CellHook list \<Rightarrow> nat \<Rightarrow> Row \<Rightarrow> Column \<Rightarrow> Row" where
  "callCellHooks handlers r row0 column =
     foldl (\<lambda>rw handler.
              case Row.objects rw r of
                None \<Rightarrow> rw
              | Some cell \<Rightarrow> rw\<lparr>Row.objects := (Row.objects rw)(r \<mapsto> handler cell rw column)\<rparr>)
           row0 handlers"

text \<open>The first loop over all rows (lines 224--256), for one row.\<close>

definition measureRow :: "Host \<Rightarrow> Table \<Rightarrow> Row \<Rightarrow> Row" where
  "measureRow h tbl row0 =
     foldl (\<lambda>rw column.
              case Row.cells rw (propKey (KNum (Column.index column))) of
                None \<Rightarrow> rw
              | Some r \<Rightarrow>
                  (let rw1 = callCellHooks (HookProps.didParseCell (Table.hooks tbl)) r rw column
                   in case Row.objects rw1 r of
                        None \<Rightarrow> rw1
                      | Some cell \<Rightarrow> rw1\<lparr>Row.objects := (Row.objects rw1)(r \<mapsto> measureCell h cell)\<rparr>))
           row0 (Table.columns tbl)"

definition cellWidthPass :: "Host \<Rightarrow> Table \<Rightarrow> Table" where
  "cellWidthPass h tbl =
     tbl\<lparr>Table.head := map (measureRow h tbl) (Table.head tbl),
         Table.body := map (measureRow h tbl) (Table.body tbl),
         Table.foot := map (measureRow h tbl) (Table.foot tbl)\<rparr>"

section \<open>The column width pass (lines 258--300)\<close>

text \<open>\<^verbatim>\<open>table.allRows()\<close> of \<^verbatim>\<open>models.ts\<close>: the head rows, the body rows, the foot rows.\<close>

definition allRows :: "Table \<Rightarrow> Row list" where
  "allRows tbl = Table.head tbl @ Table.body tbl @ Table.foot tbl"

text \<open>
  The \<^verbatim>\<open>else\<close> branch (lines 279--287): a truthy numeric \<^verbatim>\<open>cellWidth\<close> of the
  column's style sets both widths of the column.
\<close>

definition respectColumnStyles :: "StylesProps \<Rightarrow> Column \<Rightarrow> Column" where
  "respectColumnStyles sp column =
     (let columnStyles = columnStylesOf sp column;
          cellWidth = columnStyles ''cellWidth''
      in case cellWidth of
           Some (JNum w) \<Rightarrow>
             if w \<noteq> 0 then column\<lparr>Column.minWidth := w, Column.wrappedWidth := w\<rparr> else column
         | _ \<Rightarrow> column)"

text \<open>The body of the loop over the columns, for the cell \<^verbatim>\<open>row.cells[column.index]\<close>.\<close>

definition aggregateCell :: "StylesProps \<Rightarrow> Column \<Rightarrow> Cell option \<Rightarrow> Column" where
  "aggregateCell sp column0 cellOpt =
     (let column1 =
            (case cellOpt of
               Some cell \<Rightarrow>
                 if Cell.colSpan cell = 1
                 then column0\<lparr>Column.wrappedWidth :=
                                 max (Column.wrappedWidth column0) (Cell.wrappedWidth cell),
                               Column.minWidth := max (Column.minWidth column0) (Cell.minWidth cell),
                               Column.minReadableWidth :=
                                 max (Column.minReadableWidth column0) (Cell.minReadableWidth cell)\<rparr>
                 else respectColumnStyles sp column0
             | None \<Rightarrow> respectColumnStyles sp column0)
      in case cellOpt of
           Some cell \<Rightarrow>
             (let column2 =
                    (if Cell.colSpan cell > 1 \<and> Column.minWidth column1 = 0
                     then column1\<lparr>Column.minWidth := Cell.minWidth cell\<rparr> else column1)
              in if Cell.colSpan cell > 1 \<and> Column.wrappedWidth column2 = 0
                 then column2\<lparr>Column.wrappedWidth := Cell.minWidth cell\<rparr> else column2)
         | None \<Rightarrow> column1)"

definition aggregateRow :: "StylesProps \<Rightarrow> Column list \<Rightarrow> Row \<Rightarrow> Column list" where
  "aggregateRow sp cols rw =
     map (\<lambda>column. aggregateCell sp column (cellAt rw (KNum (Column.index column)))) cols"

definition columnWidthPass :: "Table \<Rightarrow> Table" where
  "columnWidthPass tbl =
     tbl\<lparr>Table.columns := foldl (aggregateRow (Table.styles tbl)) (Table.columns tbl) (allRows tbl)\<rparr>"

section \<open>\<^verbatim>\<open>parseContent\<close> (lines 160--301)\<close>

definition parseContent :: "Host \<Rightarrow> Table \<Rightarrow> Table" where
  "parseContent h tbl0 =
     (let tbl1 = tbl0\<lparr>Table.columns := getTableColumns (Table.settings tbl0)\<rparr>;
          tbl2 = foldl (parseSection h) tbl1 [Head, Body, Foot];
          tbl3 = cellWidthPass h tbl2
      in columnWidthPass tbl3)"

section \<open>\<^verbatim>\<open>parseInput\<close> (lines 31--158)\<close>

text \<open>
  The arguments of \<^verbatim>\<open>doc.autoTable\<close>: one options object, or the deprecated
  form \<^verbatim>\<open>(columns, body, [options])\<close>.
\<close>

datatype Args = Options UserOptions | Legacy "ColumnOption list" "RawRow list" "UserOptions option"

definition emptyOptions :: UserOptions where
  "emptyOptions =
     \<lparr>UserOptions.tableId = Absent, UserOptions.theme = Absent, UserOptions.useCss = Absent,
      UserOptions.margin = Absent, UserOptions.startY = Absent, UserOptions.tableWidth = Absent,
      UserOptions.html = Absent, UserOptions.includeHiddenHtml = Absent,
      UserOptions.columns = Absent, UserOptions.head = Absent, UserOptions.body = Absent,
      UserOptions.foot = Absent, UserOptions.styles = Absent, UserOptions.headStyles = Absent,
      UserOptions.bodyStyles = Absent, UserOptions.footStyles = Absent,
      UserOptions.alternateRowStyles = Absent, UserOptions.columnStyles = Absent,
      UserOptions.didParseCell = Absent, UserOptions.willDrawCell = Absent,
      UserOptions.didDrawCell = Absent, UserOptions.didDrawPage = Absent,
      UserOptions.others = Map.empty\<rparr>"

text \<open>\<^verbatim>\<open>col.header == null\<close> and the v2 title (lines 149--154).\<close>

definition titleAsHeader :: "ColumnOption \<Rightarrow> ColumnOption" where
  "titleAsHeader col =
     (case col of
        ColObj d \<Rightarrow>
          (if (case ColumnDef.header d of
                 None \<Rightarrow> True
               | Some (Scalar Null) \<Rightarrow> True
               | Some (Scalar Undefined) \<Rightarrow> True
               | _ \<Rightarrow> False)
           then ColObj (d\<lparr>ColumnDef.header := ColumnDef.title d\<rparr>)
           else col)
      | _ \<Rightarrow> col)"

text \<open>
  \<open>parseUserArguments\<close> returns the table options. In the deprecated form it
  writes into the options object and the column objects it was given, so the
  arguments are returned as the call leaves them.
\<close>

definition parseUserArguments :: "Args \<Rightarrow> UserOptions \<times> Args" where
  "parseUserArguments args =
     (case args of
        Options opts \<Rightarrow> (opts, args)
      | Legacy cols bodyRows given \<Rightarrow>
          (let opts0 = (case given of Some opts1 \<Rightarrow> opts1 | None \<Rightarrow> emptyOptions);
               cols' = map titleAsHeader cols;
               opts = opts0\<lparr>UserOptions.body := Value bodyRows, UserOptions.columns := Value cols'\<rparr>
           in (opts, Legacy cols' bodyRows (case given of Some _ \<Rightarrow> Some opts | None \<Rightarrow> None))))"

text \<open>
  \<^verbatim>\<open>assign\<close> on two options objects: a property the later object owns
  overrides, whatever its value.
\<close>

definition later :: "'a setting \<Rightarrow> 'a setting \<Rightarrow> 'a setting" where
  "later x y = (case y of Absent \<Rightarrow> x | _ \<Rightarrow> y)"

definition assignOptions :: "UserOptions \<Rightarrow> UserOptions \<Rightarrow> UserOptions" where
  "assignOptions a b =
     \<lparr>UserOptions.tableId = later (UserOptions.tableId a) (UserOptions.tableId b),
      UserOptions.theme = later (UserOptions.theme a) (UserOptions.theme b),
      UserOptions.useCss = later (UserOptions.useCss a) (UserOptions.useCss b),
      UserOptions.margin = later (UserOptions.margin a) (UserOptions.margin b),
      UserOptions.startY = later (UserOptions.startY a) (UserOptions.startY b),
      UserOptions.tableWidth = later (UserOptions.tableWidth a) (UserOptions.tableWidth b),
      UserOptions.html = later (UserOptions.html a) (UserOptions.html b),
      UserOptions.includeHiddenHtml =
        later (UserOptions.includeHiddenHtml a) (UserOptions.includeHiddenHtml b),
      UserOptions.columns = later (UserOptions.columns a) (UserOptions.columns b),
      UserOptions.head = later (UserOptions.head a) (UserOptions.head b),
      UserOptions.body = later (UserOptions.body a) (UserOptions.body b),
      UserOptions.foot = later (UserOptions.foot a) (UserOptions.foot b),
      UserOptions.styles = later (UserOptions.styles a) (UserOptions.styles b),
      UserOptions.headStyles = later (UserOptions.headStyles a) (UserOptions.headStyles b),
      UserOptions.bodyStyles = later (UserOptions.bodyStyles a) (UserOptions.bodyStyles b),
      UserOptions.footStyles = later (UserOptions.footStyles a) (UserOptions.footStyles b),
      UserOptions.alternateRowStyles =
        later (UserOptions.alternateRowStyles a) (UserOptions.alternateRowStyles b),
      UserOptions.columnStyles = later (UserOptions.columnStyles a) (UserOptions.columnStyles b),
      UserOptions.didParseCell = later (UserOptions.didParseCell a) (UserOptions.didParseCell b),
      UserOptions.willDrawCell = later (UserOptions.willDrawCell a) (UserOptions.willDrawCell b),
      UserOptions.didDrawCell = later (UserOptions.didDrawCell a) (UserOptions.didDrawCell b),
      UserOptions.didDrawPage = later (UserOptions.didDrawPage a) (UserOptions.didDrawPage b),
      UserOptions.others = UserOptions.others a ++ UserOptions.others b\<rparr>"

text \<open>The value read from a property: \<^verbatim>\<open>undefined\<close> when absent.\<close>

definition settingValue :: "jsval setting \<Rightarrow> jsval" where
  "settingValue x = (case x of Absent \<Rightarrow> Undefined | Nullish \<Rightarrow> Null | Value v \<Rightarrow> v)"

text \<open>\<^verbatim>\<open>opts[prop] || {}\<close> (line 57).\<close>

definition orEmpty :: "('k \<rightharpoonup> 'v) setting \<Rightarrow> ('k \<rightharpoonup> 'v)" where
  "orEmpty x = (case x of Value m \<Rightarrow> m | _ \<Rightarrow> Map.empty)"

text \<open>\<^verbatim>\<open>allOptions.map((opts) => opts[hookName]).filter((hook) => !!hook)\<close> (lines 70--71).\<close>

definition getHooks :: "(UserOptions \<Rightarrow> 'a setting) \<Rightarrow> UserOptions list \<Rightarrow> 'a list" where
  "getHooks hookName allOptions =
     concat (map (\<lambda>opts. case hookName opts of Value hook \<Rightarrow> [hook] | _ \<Rightarrow> []) allOptions)"

definition isSamePageAsPreviousTable :: "Host \<Rightarrow> PreviousTable option \<Rightarrow> bool" where
  "isSamePageAsPreviousTable h previous =
     (case previous of
        None \<Rightarrow> False
      | Some p \<Rightarrow>
          (let endingPage = PreviousTable.startPageNumber p + PreviousTable.pageNumber p - 1
           in endingPage = currentPageNumber h))"

definition getStartY :: "Host \<Rightarrow> UserOptions \<Rightarrow> real \<Rightarrow> jsval" where
  "getStartY h settings' marginTop =
     (let startY0 = settingValue (UserOptions.startY settings');
          startY1 =
            (if startY0 = Undefined \<or> startY0 = Null \<or> startY0 = JBool False then
               (let previous = previousAutoTable h
                in if isSamePageAsPreviousTable h previous then
                     (case previous of
                        Some p \<Rightarrow> JNum (PreviousTable.finalY p + 20 / scaleFactor h)
                      | None \<Rightarrow> startY0)
                   else startY0)
             else startY0)
      in if truthy startY1 then startY1 else JNum marginTop)"

text \<open>
  The global state the parser writes: the global and the document options
  (whose arrays it may push to) and \<^verbatim>\<open>state().table\<close>.
\<close>

record World =
  globalOptions :: UserOptions
  documentOptions :: UserOptions
  currentTable :: "Table option"

text \<open>
  The settings hold the very arrays the options objects hold, so a row pushed
  to \<^verbatim>\<open>settings.head\<close> or \<^verbatim>\<open>settings.foot\<close> shows in the options object the array
  came from: the last of the global, document and table options that owns the
  property. \<open>defaultConfig()\<close> makes a new object at every call.
\<close>

definition writeBack ::
  "(UserOptions \<Rightarrow> RawRow list setting) \<Rightarrow> (UserOptions \<Rightarrow> RawRow list \<Rightarrow> UserOptions) \<Rightarrow>
   RawRow list \<Rightarrow> UserOptions \<times> UserOptions \<times> UserOptions \<Rightarrow> UserOptions \<times> UserOptions \<times> UserOptions"
where
  "writeBack get put rows gdt =
     (case gdt of (g, d, t) \<Rightarrow>
        (case get t of
           Value _ \<Rightarrow> (g, d, put t rows)
         | Nullish \<Rightarrow> gdt
         | Absent \<Rightarrow>
             (case get d of
                Value _ \<Rightarrow> (g, put d rows, t)
              | Nullish \<Rightarrow> gdt
              | Absent \<Rightarrow>
                  (case get g of
                     Value _ \<Rightarrow> (put g rows, d, t)
                   | _ \<Rightarrow> gdt))))"

definition putArgs :: "Args \<Rightarrow> UserOptions \<Rightarrow> Args" where
  "putArgs args t =
     (case args of
        Options _ \<Rightarrow> Options t
      | Legacy cols bodyRows given \<Rightarrow>
          Legacy cols bodyRows (case given of Some _ \<Rightarrow> Some t | None \<Rightarrow> None))"

text \<open>
  The settings (lines 38--42): the default configuration overridden by the
  global, the document and the table options, with the theme \<^verbatim>\<open>'auto'\<close> resolved.
\<close>

definition resolveSettings :: "Host \<Rightarrow> UserOptions list \<Rightarrow> UserOptions" where
  "resolveSettings h allOptions =
     (let defaultConf = defaultConfig h;
          settings0 = foldl assignOptions emptyOptions (defaultConf # allOptions)
      in if UserOptions.theme settings0 = Value ''auto''
         then settings0\<lparr>UserOptions.theme :=
                          Value (if UserOptions.useCss settings0 = Value True
                                 then ''plain'' else ''striped'')\<rparr>
         else settings0)"

text \<open>The styles merged one level deeper (lines 48--59).\<close>

definition mergeStyleOptions :: "UserOptions list \<Rightarrow> StylesProps" where
  "mergeStyleOptions allOptions =
     \<lparr>StylesProps.styles =
        assign Map.empty (map (\<lambda>opts. orEmpty (UserOptions.styles opts)) allOptions),
      StylesProps.headStyles =
        assign Map.empty (map (\<lambda>opts. orEmpty (UserOptions.headStyles opts)) allOptions),
      StylesProps.bodyStyles =
        assign Map.empty (map (\<lambda>opts. orEmpty (UserOptions.bodyStyles opts)) allOptions),
      StylesProps.footStyles =
        assign Map.empty (map (\<lambda>opts. orEmpty (UserOptions.footStyles opts)) allOptions),
      StylesProps.alternateRowStyles =
        assign Map.empty (map (\<lambda>opts. orEmpty (UserOptions.alternateRowStyles opts)) allOptions),
      StylesProps.columnStyles =
        assign Map.empty (map (\<lambda>opts. orEmpty (UserOptions.columnStyles opts)) allOptions)\<rparr>"

text \<open>The document's current text styles (lines 62--68).\<close>

definition documentStyles :: "Host \<Rightarrow> styles" where
  "documentStyles h =
     [''textColor'' \<mapsto> (case docTextColor h of Some c \<Rightarrow> c | None \<Rightarrow> JNum 0),
      ''fontSize'' \<mapsto> docFontSize h,
      ''fontStyle'' \<mapsto> docFontStyle h,
      ''font'' \<mapsto> docFontName h]"

text \<open>The hooks of the three options objects (lines 70--77).\<close>

definition collectHooks :: "UserOptions list \<Rightarrow> HookProps" where
  "collectHooks allOptions =
     \<lparr>HookProps.didParseCell = getHooks UserOptions.didParseCell allOptions,
      HookProps.willDrawCell = getHooks UserOptions.willDrawCell allOptions,
      HookProps.didDrawCell = getHooks UserOptions.didDrawCell allOptions,
      HookProps.didDrawPage = getHooks UserOptions.didDrawPage allOptions\<rparr>"

text \<open>The content of the HTML table, when \<^verbatim>\<open>settings.html\<close> is truthy (lines 89--94).\<close>

definition htmlContentOf ::
  "Host \<Rightarrow> UserOptions \<Rightarrow> (RawRow list \<times> RawRow list \<times> RawRow list) option"
where
  "htmlContentOf h settings' =
     (case UserOptions.html settings' of
        Value src \<Rightarrow>
          if src \<noteq> []
          then parseHtml h src (UserOptions.includeHiddenHtml settings') (UserOptions.useCss settings')
          else None
      | _ \<Rightarrow> None)"

text \<open>
  \<^verbatim>\<open>settings.head = htmlContent.head || settings.head || []\<close>, and the same for
  the body and the foot (lines 95--97).
\<close>

definition withSections ::
  "(RawRow list \<times> RawRow list \<times> RawRow list) option \<Rightarrow> UserOptions \<Rightarrow> UserOptions"
where
  "withSections htmlContent settings' =
     (case htmlContent of
        Some (hd_rows, bd_rows, ft_rows) \<Rightarrow>
          settings'\<lparr>UserOptions.head := Value hd_rows, UserOptions.body := Value bd_rows,
                    UserOptions.foot := Value ft_rows\<rparr>
      | None \<Rightarrow>
          settings'\<lparr>UserOptions.head := Value (sectionRowsOf (UserOptions.head settings')),
                    UserOptions.body := Value (sectionRowsOf (UserOptions.body settings')),
                    UserOptions.foot := Value (sectionRowsOf (UserOptions.foot settings'))\<rparr>)"

text \<open>
  The table as \<open>parseContent\<close> receives it (lines 32--97). The table holds the
  settings object itself, so the sections assigned in lines 95--97, after the
  table was constructed, are the table's too.
\<close>

definition tableFor :: "Host \<Rightarrow> UserOptions \<Rightarrow> UserOptions \<Rightarrow> UserOptions \<Rightarrow> Table" where
  "tableFor h globalOpts documentOpts tableOpts =
     (let allOptions = [globalOpts, documentOpts, tableOpts];
          settings1 = resolveSettings h allOptions;
          margin = marginOrPadding h (settingValue (UserOptions.margin settings1))
                                     (settingValue (UserOptions.margin (defaultConfig h)));
          startY = getStartY h settings1 (MarginPadding.top margin);
          settings2 = withSections (htmlContentOf h settings1) settings1
      in newTable (UserOptions.tableId tableOpts) startY settings2
           (mergeStyleOptions allOptions) (documentStyles h) (collectHooks allOptions) margin)"

text \<open>The widths of the table (lines 101--114).\<close>

definition tableWidths :: "Host \<Rightarrow> Table \<Rightarrow> Table" where
  "tableWidths h table1 =
     (let table2 = table1\<lparr>Table.minWidth :=
                            foldl (\<lambda>total col. total + Column.minWidth col) 0 (Table.columns table1)\<rparr>;
          table3 = table2\<lparr>Table.wrappedWidth :=
                            foldl (\<lambda>total col. total + Column.wrappedWidth col) 0
                              (Table.columns table2)\<rparr>;
          tableWidth = settingValue (UserOptions.tableWidth (Table.settings table3))
      in case tableWidth of
           JNum n \<Rightarrow> table3\<lparr>Table.width := n\<rparr>
         | _ \<Rightarrow>
             if tableWidth = JStr ''wrap''
             then table3\<lparr>Table.width := Table.wrappedWidth table3\<rparr>
             else table3\<lparr>Table.width :=
                           pageWidth h - MarginPadding.left (Table.margin table3)
                             - MarginPadding.right (Table.margin table3)\<rparr>)"

text \<open>
  The options objects as the call leaves them: without HTML content, the head
  and foot arrays of the settings are the users' arrays.
\<close>

definition storeSections ::
  "Host \<Rightarrow> Table \<Rightarrow> UserOptions \<times> UserOptions \<times> UserOptions \<Rightarrow> UserOptions \<times> UserOptions \<times> UserOptions"
where
  "storeSections h tbl gdt =
     (case gdt of (g, d, t) \<Rightarrow>
        (case htmlContentOf h (resolveSettings h [g, d, t]) of
           Some _ \<Rightarrow> gdt
         | None \<Rightarrow>
             writeBack UserOptions.foot (\<lambda>opts rows. opts\<lparr>UserOptions.foot := Value rows\<rparr>)
               (sectionRowsOf (UserOptions.foot (Table.settings tbl)))
               (writeBack UserOptions.head (\<lambda>opts rows. opts\<lparr>UserOptions.head := Value rows\<rparr>)
                  (sectionRowsOf (UserOptions.head (Table.settings tbl)))
                  gdt)))"

definition parseInput :: "Host \<Rightarrow> World \<Rightarrow> Args \<Rightarrow> Table \<times> World \<times> Args" where
  "parseInput h w args0 =
     (let (tableOptions, args1) = parseUserArguments args0;
          globalOptions = World.globalOptions w;
          documentOptions = World.documentOptions w;
          table0 = tableFor h globalOptions documentOptions tableOptions;
          table1 = parseContent h table0;
          table2 = tableWidths h table1;
          (g', d', t') = storeSections h table2 (globalOptions, documentOptions, tableOptions)
      in (table2,
          \<lparr>World.globalOptions = g', World.documentOptions = d', World.currentTable = Some table2\<rparr>,
          putArgs args1 t'))"

section \<open>A host for the examples\<close>

text \<open>
  Modelled from the spec: the \<^verbatim>\<open>Cell\<close> constructor of \<^verbatim>\<open>models.ts\<close>, which is not
  among the sources. A cell value is a scalar or an object carrying a content,
  a column span, a row span and styles; the spans default to one and are not
  clamped; the styles of the cell object override the cascade's; the text is
  the content as a sequence of lines, and the widths start at zero. The text
  of a content that is not a string is left to \<open>stringify\<close>.
\<close>

fun splitLines :: "string \<Rightarrow> string list" where
  "splitLines [] = [[]]"
| "splitLines (c # cs) =
     (if c = CHR 0x0A then [] # splitLines cs
      else (case splitLines cs of [] \<Rightarrow> [[c]] | l # ls \<Rightarrow> (c # l) # ls))"

definition contentOf :: "RawCell \<Rightarrow> jsval" where
  "contentOf rawCell =
     (case rawCell of
        Given (Scalar v) \<Rightarrow> v
      | Given (CellObj d) \<Rightarrow> CellDef.content d
      | ColumnData (ColStr s) \<Rightarrow> JStr s
      | ColumnData (ColNum n) \<Rightarrow> JNum (real n)
      | ColumnData (ColObj d) \<Rightarrow> JObj [])"

definition cellFromSpec :: "(jsval \<Rightarrow> string) \<Rightarrow> RawCell \<Rightarrow> styles \<Rightarrow> Section \<Rightarrow> Cell" where
  "cellFromSpec stringify rawCell themeStyles sectionName =
     \<lparr>Cell.raw = rawCell,
      Cell.styles =
        assign themeStyles
          [case rawCell of Given (CellObj d) \<Rightarrow> CellDef.styles d | _ \<Rightarrow> Map.empty],
      Cell.text' =
        Lines (splitLines
                 (case contentOf rawCell of
                    JStr s \<Rightarrow> s
                  | Undefined \<Rightarrow> []
                  | Null \<Rightarrow> []
                  | v \<Rightarrow> stringify v)),
      Cell.section' = sectionName,
      Cell.colSpan =
        (case rawCell of
           Given (CellObj d) \<Rightarrow> (case CellDef.colSpan d of Some n \<Rightarrow> n | None \<Rightarrow> 1)
         | _ \<Rightarrow> 1),
      Cell.rowSpan =
        (case rawCell of
           Given (CellObj d) \<Rightarrow> (case CellDef.rowSpan d of Some n \<Rightarrow> n | None \<Rightarrow> 1)
         | _ \<Rightarrow> 1),
      Cell.contentWidth = 0, Cell.wrappedWidth = 0, Cell.minReadableWidth = 0,
      Cell.minWidth = 0\<rparr>"

text \<open>
  A host to run the parser on concrete input: every character is ten units
  wide, a cell has no padding, the scale factor is one, the theme and the
  default styles are empty, the page is 600 units wide with margins of 40, and
  no table has been drawn before.
\<close>

definition plainTheme :: Theme where
  "plainTheme =
     \<lparr>Theme.table = Map.empty, Theme.head = Map.empty, Theme.body = Map.empty,
      Theme.foot = Map.empty, Theme.alternateRow = Map.empty\<rparr>"

fun widest :: "string list \<Rightarrow> nat" where
  "widest [] = 0"
| "widest (l # ls) = max (length l) (widest ls)"

definition exampleHost :: Host where
  "exampleHost =
     \<lparr>Host.getStringWidth = (\<lambda>ls st. 10 * real (widest ls)),
      Host.paddingHorizontal = (\<lambda>c. 0),
      Host.scaleFactor = 1,
      Host.getTheme = (\<lambda>n. plainTheme),
      Host.defaultStyles = Map.empty,
      Host.newCell = cellFromSpec (\<lambda>v. []),
      Host.defaultConfig = emptyOptions,
      Host.marginOrPadding = (\<lambda>v d. \<lparr>MarginPadding.top = 40, MarginPadding.right = 40,
                                          MarginPadding.bottom = 40, MarginPadding.left = 40\<rparr>),
      Host.parseHtml = (\<lambda>src hidden css. None),
      Host.pageWidth = 600,
      Host.currentPageNumber = 1,
      Host.previousAutoTable = None,
      Host.docTextColor = None,
      Host.docFontSize = JNum 10,
      Host.docFontStyle = JStr ''normal'',
      Host.docFontName = JStr ''helvetica''\<rparr>"

definition exampleWorld :: World where
  "exampleWorld =
     \<lparr>World.globalOptions = emptyOptions, World.documentOptions = emptyOptions,
      World.currentTable = None\<rparr>"

text \<open>String cells and cell objects for the examples.\<close>

definition str :: "string \<Rightarrow> RawCell" where
  "str s = Given (Scalar (JStr s))"

definition spanning :: "string \<Rightarrow> int option \<Rightarrow> int option \<Rightarrow> RawCell" where
  "spanning s cs rs =
     Given (CellObj \<lparr>CellDef.content = JStr s, CellDef.colSpan = cs, CellDef.rowSpan = rs,
                      CellDef.styles = Map.empty\<rparr>)"

text \<open>
  Whether a column supplies a value to a generated row: for the head its raw
  value is truthy (the header, when truthy, is taken, and else the raw value
  itself); for the foot it is an object with a truthy footer.
\<close>

definition supplies :: "Section \<Rightarrow> Column \<Rightarrow> bool" where
  "supplies s col =
     (case s of
        Head \<Rightarrow> truthyColumn (Column.raw col)
      | Foot \<Rightarrow> (\<exists>d c. Column.raw col = ColObj d \<and> ColumnDef.footer d = Some c \<and> truthyCell c)
      | Body \<Rightarrow> False)"

text \<open>
  The aggregation as one column sees it: the rows in order, each with the cell
  read at the column's index. The columns do not interact in the pass, so the
  pass maps this over the columns (lemma \<open>foldl_aggregateRow\<close>).
\<close>

definition columnOver :: "StylesProps \<Rightarrow> Column \<Rightarrow> Row list \<Rightarrow> Column" where
  "columnOver sp col rows =
     foldl (\<lambda>c rw. aggregateCell sp c (cellAt rw (KNum (Column.index c)))) col rows"

section \<open>Column inference as the specification words it\<close>

text \<open>
  The identities the specification gives to inferred columns, with the
  array case as the code has it: a key with a declared column span \<open>n\<close> gets
  the sibling identities \<open>key\<close>, \<open>key_1\<close>, ..., and the columns of an array-shaped
  row are numbered through, a position with span \<open>n\<close> taking \<open>n\<close> of them.
\<close>

definition siblingKeys :: "string \<Rightarrow> int \<Rightarrow> key list" where
  "siblingKeys k n = map (\<lambda>i. KStr (if i = 0 then k else k @ ''_'' @ natString i)) [0 ..< nat n]"

definition inferredKeys :: "RawRow \<Rightarrow> key list" where
  "inferredKeys r =
     (case r of
        Keyed kvs \<Rightarrow>
          concat (map (\<lambda>kv. siblingKeys (fst kv) (declaredColSpan (snd kv)))
                      (filter (\<lambda>kv. fst kv \<noteq> ''_element'') kvs))
      | Positional cs \<Rightarrow> map KNum [0 ..< sum_list (map (\<lambda>c. nat (declaredColSpan c)) cs)])"

section \<open>Example inputs\<close>


text \<open>
  No columns given; the first body row is the array \<^verbatim>\<open>[{content: 'Q', colSpan: 2}, 'b']\<close>,
  or the object \<^verbatim>\<open>{a: {content: 'Q', colSpan: 2}, _element: 'tr', b: 'x'}\<close>.
\<close>

definition spanFirst :: UserOptions where
  "spanFirst = emptyOptions\<lparr>UserOptions.body :=
      Value [Positional [spanning ''Q'' (Some 2) None, str ''b'']]\<rparr>"

definition keyedFirst :: UserOptions where
  "keyedFirst = emptyOptions\<lparr>UserOptions.body :=
      Value [Keyed [(''a'', spanning ''Q'' (Some 2) None), (''_element'', str ''tr''),
                    (''b'', str ''x'')]]\<rparr>"

text \<open>
  Scenario B: the columns \<^verbatim>\<open>[{dataKey: 'x', header: 'X'}]\<close>, the body
  \<^verbatim>\<open>[{x: 'v1'}, {x: 'v2'}]\<close>, no head and no foot. \<open>scenarioBColumns\<close> is the
  table when the loop over the sections starts.
\<close>

definition xColumn :: ColumnDef where
  "xColumn = \<lparr>ColumnDef.dataKey = Some (KStr ''x''), ColumnDef.key = None,
               ColumnDef.header = Some (Scalar (JStr ''X'')), ColumnDef.footer = None,
               ColumnDef.title = None\<rparr>"

definition scenarioB :: UserOptions where
  "scenarioB = emptyOptions\<lparr>
     UserOptions.columns :=
       Value [ColObj xColumn],
     UserOptions.body := Value [Keyed [(''x'', str ''v1'')], Keyed [(''x'', str ''v2'')]]\<rparr>"

definition scenarioBTable :: Table where
  "scenarioBTable = fst (parseInput exampleHost exampleWorld (Options scenarioB))"

definition scenarioBColumns :: Table where
  "scenarioBColumns =
     (tableFor exampleHost emptyOptions emptyOptions scenarioB)
       \<lparr>Table.columns := getTableColumns scenarioB\<rparr>"













section \<open>Notions for a second run of the parser\<close>

text \<open>
  The raw rows of a section once the section has been parsed: the rows of the
  settings and the generated row, if there is one.
\<close>

definition pushedRows :: "Table \<Rightarrow> Section \<Rightarrow> RawRow list" where
  "pushedRows tbl s =
     settingsSection (Table.settings tbl) s
       @ (case generatedRow tbl s of Some r \<Rightarrow> [r] | None \<Rightarrow> [])"

text \<open>The settings hold an array for the section, as they do after lines 95--97.\<close>

definition ownsRows :: "UserOptions \<Rightarrow> Section \<Rightarrow> bool" where
  "ownsRows st s \<longleftrightarrow> setSettingsSection st s (settingsSection st s) = st"

text \<open>An options object without its head and its foot.\<close>

definition withoutSections :: "UserOptions \<Rightarrow> UserOptions" where
  "withoutSections opts = opts\<lparr>UserOptions.head := Absent, UserOptions.foot := Absent\<rparr>"

text \<open>The resolution of the theme \<^verbatim>\<open>'auto'\<close> (lines 40--42), as \<open>resolveSettings\<close> has it.\<close>

definition autoTheme :: "UserOptions \<Rightarrow> UserOptions" where
  "autoTheme settings0 =
     (if UserOptions.theme settings0 = Value ''auto''
      then settings0\<lparr>UserOptions.theme :=
                       Value (if UserOptions.useCss settings0 = Value True
                              then ''plain'' else ''striped'')\<rparr>
      else settings0)"

text \<open>
  The array that the three options objects give to the settings for a
  property, if they give one, holds the rows \<open>rows\<close>.
\<close>

definition settled ::
  "(UserOptions \<Rightarrow> RawRow list setting) \<Rightarrow> RawRow list \<Rightarrow>
   UserOptions \<times> UserOptions \<times> UserOptions \<Rightarrow> bool"
where
  "settled get rows gdt =
     (case gdt of (g, d, t) \<Rightarrow>
        (case later (later (get g) (get d)) (get t) of
           Value r \<Rightarrow> r = rows
         | _ \<Rightarrow> True))"

text \<open>
  \<open>parseInput\<close> after \<open>parseUserArguments\<close>: the table, and the three options
  objects as the run leaves them.
\<close>

definition resolveOptions ::
  "Host \<Rightarrow> UserOptions \<times> UserOptions \<times> UserOptions \<Rightarrow>
   Table \<times> UserOptions \<times> UserOptions \<times> UserOptions"
where
  "resolveOptions h gdt =
     (case gdt of (g, d, t) \<Rightarrow>
        (let tbl = tableWidths h (parseContent h (tableFor h g d t))
         in (tbl, storeSections h tbl gdt)))"

text \<open>Scenario B called with an empty head array of the caller's.\<close>

definition emptyHead :: UserOptions where
  "emptyHead = scenarioB\<lparr>UserOptions.head := Value []\<rparr>"

section \<open>Properties of the cell width pass\<close>



lemma measureCell_contentWidth:
  "Cell.contentWidth (measureCell h c) =
     getStringWidth h (arrayText (Cell.text' c)) (Cell.styles c)
       + paddingHorizontal h (c\<lparr>Cell.text' := Lines (arrayText (Cell.text' c))\<rparr>)"
  by (simp add: measureCell_def Let_def split: option.split jsval.split)






section \<open>Properties of the style cascade\<close>






section \<open>The widths of the table\<close>

lemma foldl_add_sum:
  "foldl (\<lambda>total col. total + f col) a cols = a + sum_list (map f cols)"
  for a :: real
  by (induction cols arbitrary: a) simp_all

lemma fst_parseInput:
  "fst (parseInput h w args) =
     tableWidths h (parseContent h
       (tableFor h (World.globalOptions w) (World.documentOptions w) (fst (parseUserArguments args))))"
  by (simp add: parseInput_def Let_def split: prod.split)

lemma tableWidths_fields:
  "Table.columns (tableWidths h t) = Table.columns t"
  "Table.settings (tableWidths h t) = Table.settings t"
  "Table.margin (tableWidths h t) = Table.margin t"
  "Table.minWidth (tableWidths h t) = sum_list (map Column.minWidth (Table.columns t))"
  "Table.wrappedWidth (tableWidths h t) = sum_list (map Column.wrappedWidth (Table.columns t))"
  by (simp_all add: tableWidths_def Let_def foldl_add_sum split: jsval.split)

lemma tableWidths_width:
  "Table.width (tableWidths h t) =
     (case settingValue (UserOptions.tableWidth (Table.settings t)) of
        JNum n \<Rightarrow> n
      | v \<Rightarrow> if v = JStr ''wrap'' then sum_list (map Column.wrappedWidth (Table.columns t))
             else pageWidth h - MarginPadding.left (Table.margin t) - MarginPadding.right (Table.margin t))"
  by (simp add: tableWidths_def Let_def foldl_add_sum split: jsval.split)

text \<open>
  C10: in the table \<open>parseInput\<close> returns, \<open>minWidth\<close> is the sum of the
  columns' \<open>minWidth\<close>, \<open>wrappedWidth\<close> is the sum of the columns'
  \<open>wrappedWidth\<close>, and \<open>width\<close> is the \<^verbatim>\<open>tableWidth\<close> setting when that is a
  number, the table's \<open>wrappedWidth\<close> when the setting is \<^verbatim>\<open>'wrap'\<close>, and
  otherwise the page width minus the left and the right margin.
\<close>

theorem C10_table_widths:
  "Table.minWidth (fst (parseInput h w args)) =
     sum_list (map Column.minWidth (Table.columns (fst (parseInput h w args))))
   \<and> Table.wrappedWidth (fst (parseInput h w args)) =
     sum_list (map Column.wrappedWidth (Table.columns (fst (parseInput h w args))))
   \<and> Table.width (fst (parseInput h w args)) =
     (case settingValue (UserOptions.tableWidth (Table.settings (fst (parseInput h w args)))) of
        JNum n \<Rightarrow> n
      | v \<Rightarrow> if v = JStr ''wrap'' then Table.wrappedWidth (fst (parseInput h w args))
             else pageWidth h - MarginPadding.left (Table.margin (fst (parseInput h w args)))
                    - MarginPadding.right (Table.margin (fst (parseInput h w args))))"
proof -
  define t where "t = parseContent h
       (tableFor h (World.globalOptions w) (World.documentOptions w) (fst (parseUserArguments args)))"
  have r: "fst (parseInput h w args) = tableWidths h t"
    by (simp add: fst_parseInput t_def)
  show ?thesis
    unfolding r
    by (cases "settingValue (UserOptions.tableWidth (Table.settings t))")
       (simp_all add: tableWidths_fields tableWidths_width)
qed

section \<open>Inferred columns\<close>

lemma digitChar_lt10: "d < 10 \<Longrightarrow> digitChar d \<in> set ''0123456789''"
  unfolding digitChar_def by (rule nth_mem) simp

lemma natString_last: "natString n \<noteq> [] \<and> last (natString n) \<in> set ''0123456789''"
proof (cases "n < 10")
  case True
  then show ?thesis using digitChar_lt10 [of n] by (simp add: natString.simps [of n])
next
  case False
  then show ?thesis using digitChar_lt10 [of "n mod 10"] by (simp add: natString.simps [of n])
qed

lemma natString_not_element: "natString n \<noteq> ''_element''"
proof
  assume "natString n = ''_element''"
  with natString_last [of n] show False by simp
qed

lemma pushColumn_facts:
  "map Column.dataKey (pushColumn arr k cols i)
     = map Column.dataKey cols
         @ [if arr then KNum (length cols) else KStr (k @ (if i > 0 then ''_'' @ natString i else []))]"
  "map Column.index (pushColumn arr k cols i) = map Column.index cols @ [length cols]"
  "length (pushColumn arr k cols i) = Suc (length cols)"
  by (simp_all add: pushColumn_def Let_def columnId_def newColumn_def)

lemma span_loop_length:
  "length (foldl (pushColumn arr k) cols0 [0 ..< n]) = length cols0 + n"
  by (induction n) (simp_all add: pushColumn_facts)

lemma span_loop_index:
  "map Column.index (foldl (pushColumn arr k) cols0 [0 ..< n])
     = map Column.index cols0 @ [length cols0 ..< length cols0 + n]"
  by (induction n) (simp_all add: pushColumn_facts span_loop_length)

lemma span_loop_keys:
  "map Column.dataKey (foldl (pushColumn arr k) cols0 [0 ..< n])
     = map Column.dataKey cols0
         @ map (\<lambda>i. if arr then KNum (length cols0 + i)
                     else KStr (k @ (if i > 0 then ''_'' @ natString i else []))) [0 ..< n]"
  by (induction n) (simp_all add: pushColumn_facts span_loop_length)

lemma pushColumns_keys:
  "map Column.dataKey (pushColumns arr cols0 kv)
     = map Column.dataKey cols0
         @ (if arr then map KNum [length cols0 ..< length cols0 + nat (declaredColSpan (snd kv))]
            else siblingKeys (fst kv) (declaredColSpan (snd kv)))"
proof -
  have "map (\<lambda>i. KNum (length cols0 + i)) [0 ..< n] = map KNum [length cols0 ..< length cols0 + n]" for n
    by (induction n) simp_all
  then show ?thesis
    by (auto simp add: pushColumns_def siblingKeys_def span_loop_keys)
qed

lemma pushColumns_index:
  "map Column.index (pushColumns arr cols0 kv)
     = map Column.index cols0 @ [length cols0 ..< length cols0 + nat (declaredColSpan (snd kv))]"
  by (simp add: pushColumns_def span_loop_index)

lemma pushColumns_length:
  "length (pushColumns arr cols0 kv) = length cols0 + nat (declaredColSpan (snd kv))"
  by (simp add: pushColumns_def span_loop_length)

lemma foldl_pushColumns_length:
  "length (foldl (pushColumns arr) cols0 kvs)
     = length cols0 + sum_list (map (\<lambda>kv. nat (declaredColSpan (snd kv))) kvs)"
  by (induction kvs arbitrary: cols0) (simp_all add: pushColumns_length)

lemma foldl_pushColumns_index:
  "map Column.index cols0 = [0 ..< length cols0] \<Longrightarrow>
   map Column.index (foldl (pushColumns arr) cols0 kvs)
     = [0 ..< length (foldl (pushColumns arr) cols0 kvs)]"
proof (induction kvs arbitrary: cols0)
  case Nil
  then show ?case by simp
next
  case (Cons kv kvs)
  have "map Column.index (pushColumns arr cols0 kv) = [0 ..< length (pushColumns arr cols0 kv)]"
    using Cons.prems
    by (simp add: pushColumns_index pushColumns_length upt_add_eq_append [symmetric])
  then show ?case using Cons.IH by simp
qed

lemma foldl_pushColumns_object:
  "map Column.dataKey (foldl (pushColumns False) cols0 kvs)
     = map Column.dataKey cols0
         @ concat (map (\<lambda>kv. siblingKeys (fst kv) (declaredColSpan (snd kv))) kvs)"
  by (induction kvs arbitrary: cols0) (simp_all add: pushColumns_keys)

lemma upt_join: "[a ..< a + b] @ [a + b ..< a + (b + c)] = [a ..< a + (b + c)]"
  for a b c :: nat
  using upt_add_eq_append [of a "a + b" c] by (simp add: add.assoc)

lemma foldl_pushColumns_array:
  "map Column.dataKey (foldl (pushColumns True) cols0 kvs)
     = map Column.dataKey cols0
         @ map KNum [length cols0 ..<
                      length cols0 + sum_list (map (\<lambda>kv. nat (declaredColSpan (snd kv))) kvs)]"
proof (induction kvs arbitrary: cols0)
  case Nil
  show ?case by simp
next
  case (Cons kv kvs)
  show ?case
    by (simp add: Cons.IH pushColumns_keys pushColumns_length add.assoc upt_join
          flip: map_append)
qed

lemma entries_Positional:
  "filter (\<lambda>kv. fst kv \<noteq> ''_element'') (entries (Positional cs)) = entries (Positional cs)"
  "map snd (entries (Positional cs)) = cs"
  by (simp_all add: entries_def natString_not_element o_def map_nth)

lemma inferred_keys:
  "map Column.dataKey
     (foldl (pushColumns (isArray r)) [] (filter (\<lambda>kv. fst kv \<noteq> ''_element'') (entries r)))
   = inferredKeys r"
proof (cases r)
  case (Positional cs)
  have "map (\<lambda>kv. nat (declaredColSpan (snd kv))) (entries (Positional cs))
          = map (\<lambda>c. nat (declaredColSpan c)) (map snd (entries (Positional cs)))"
    by (simp add: o_def)
  then show ?thesis
    using Positional
    by (simp add: isArray_def inferredKeys_def foldl_pushColumns_array entries_Positional
          del: map_map)
next
  case (Keyed kvs)
  then show ?thesis
    by (simp add: isArray_def inferredKeys_def foldl_pushColumns_object entries_def)
qed

text \<open>
  C8 as the claim states it fails for an array-shaped first row: the row
  \<^verbatim>\<open>[{content: 'Q', colSpan: 2}, 'b']\<close> has two positions and gives three
  columns, identified 0, 1 and 2 (lines 338--346 run the span loop for arrays
  too and number the columns by \<^verbatim>\<open>columns.length\<close>).
\<close>

theorem C8_array_span_counterexample:
  "UserOptions.columns spanFirst = Absent
   \<and> sectionRowsOf (UserOptions.body spanFirst) = [Positional [spanning ''Q'' (Some 2) None, str ''b'']]
   \<and> map Column.dataKey (getTableColumns spanFirst) = [KNum 0, KNum 1, KNum 2]"
  by (simp add: spanFirst_def emptyOptions_def sectionRowsOf_def getTableColumns_def firstRow_def
       Let_def isArray_def entries_def natString.simps pushColumns_def pushColumn_def
       declaredColSpan_def spanning_def str_def columnId_def newColumn_def digitChar_def upt_rec)

text \<open>
  C8, amended: when no columns are given, the columns are inferred from the
  first row of the first non-empty section, head before body before foot, and
  there is no column when all three are empty. For every key of that row other
  than \<^verbatim>\<open>_element\<close>, in key order, as many columns are created as the row's cell
  for that key declares as its column span (one when it declares none, or
  zero). For an object-shaped row their identities are \<open>key\<close>, \<open>key_1\<close>,
  \<open>key_2\<close>, ...; for an array-shaped row the identity of a column is its running
  index, so a position with span \<open>n\<close> takes \<open>n\<close> columns. The index of every
  column is its place in the list.
\<close>

theorem C8_inferred_columns:
  assumes "\<forall>cols. UserOptions.columns st \<noteq> Value cols"
  shows "map Column.dataKey (getTableColumns st) =
           inferredKeys
             (if sectionRowsOf (UserOptions.head st) \<noteq> [] then hd (sectionRowsOf (UserOptions.head st))
              else if sectionRowsOf (UserOptions.body st) \<noteq> [] then hd (sectionRowsOf (UserOptions.body st))
              else if sectionRowsOf (UserOptions.foot st) \<noteq> [] then hd (sectionRowsOf (UserOptions.foot st))
              else Positional [])
         \<and> map Column.index (getTableColumns st) = [0 ..< length (getTableColumns st)]"
proof -
  have fr: "firstRow hs bs fs =
          (if hs \<noteq> [] then hd hs else if bs \<noteq> [] then hd bs
           else if fs \<noteq> [] then hd fs else Positional [])" for hs bs fs
    by (simp add: firstRow_def split: list.split)
  from assms have g: "getTableColumns st =
      (let first = firstRow (sectionRowsOf (UserOptions.head st))
                            (sectionRowsOf (UserOptions.body st))
                            (sectionRowsOf (UserOptions.foot st))
       in foldl (pushColumns (isArray first)) []
                (filter (\<lambda>kv. fst kv \<noteq> ''_element'') (entries first)))"
    by (cases "UserOptions.columns st") (simp_all add: getTableColumns_def)
  show ?thesis
    unfolding g Let_def fr [symmetric]
    by (simp add: inferred_keys foldl_pushColumns_index)
qed

theorem C8_inferred_columns_witness:
  "map Column.dataKey (getTableColumns keyedFirst) = [KStr ''a'', KStr ''a_1'', KStr ''b'']
   \<and> map Column.index (getTableColumns keyedFirst) = [0, 1, 2]"
proof -
  have none: "\<forall>cols. UserOptions.columns keyedFirst \<noteq> Value cols"
    by (simp add: keyedFirst_def emptyOptions_def)
  have hd_rows: "sectionRowsOf (UserOptions.head keyedFirst) = []"
    by (simp add: keyedFirst_def emptyOptions_def sectionRowsOf_def)
  have bd_rows: "sectionRowsOf (UserOptions.body keyedFirst) =
          [Keyed [(''a'', spanning ''Q'' (Some 2) None), (''_element'', str ''tr''),
                  (''b'', str ''x'')]]"
    by (simp add: keyedFirst_def emptyOptions_def sectionRowsOf_def)
  have one: "natString (Suc 0) = ''1''" by (simp add: natString.simps digitChar_def)
  have keys: "inferredKeys (Keyed [(''a'', spanning ''Q'' (Some 2) None), (''_element'', str ''tr''),
                  (''b'', str ''x'')]) = [KStr ''a'', KStr ''a_1'', KStr ''b'']"
    by (simp add: inferredKeys_def siblingKeys_def declaredColSpan_def spanning_def str_def
          upt_rec one)
  have len: "length (getTableColumns keyedFirst) = 3"
    by code_simp
  have three: "[0 ..< 3] = [0, 1, 2::nat]" by (simp add: upt_rec)
  from C8_inferred_columns [OF none] show ?thesis
    by (simp add: hd_rows bd_rows keys len three)
qed

section \<open>Generated head and foot rows\<close>

lemma setProp_not_empty: "setProp kvs k v \<noteq> []"
  by (induction kvs k v rule: setProp.induct) simp_all

lemma truthy_headValue: "truthyRaw (headValue r) = truthyColumn r"
  by (cases r) (simp_all add: headValue_def split: option.split)

lemma footValue_Some:
  "(footValue r \<noteq> None) = (\<exists>d c. r = ColObj d \<and> ColumnDef.footer d = Some c \<and> truthyCell c)"
  by (cases r) (auto simp add: footValue_def split: option.split)

lemma addColumnData_cases:
  "addColumnData s sectionRow col =
     (if supplies s col then addColumnData s sectionRow col else sectionRow)"
  "supplies s col \<Longrightarrow> addColumnData s sectionRow col \<noteq> []"
  "sectionRow \<noteq> [] \<Longrightarrow> addColumnData s sectionRow col \<noteq> []"
proof -
  show "addColumnData s sectionRow col =
     (if supplies s col then addColumnData s sectionRow col else sectionRow)"
    using footValue_Some [of "Column.raw col"]
    by (cases s) (auto simp add: addColumnData_def supplies_def Let_def truthy_headValue
          split: option.split)
  show "supplies s col \<Longrightarrow> addColumnData s sectionRow col \<noteq> []"
    using footValue_Some [of "Column.raw col"]
    by (cases s) (auto simp add: addColumnData_def supplies_def Let_def truthy_headValue
          setProp_not_empty split: option.split)
  show "sectionRow \<noteq> [] \<Longrightarrow> addColumnData s sectionRow col \<noteq> []"
    by (cases s) (auto simp add: addColumnData_def Let_def setProp_not_empty split: option.split)
qed

lemma foldl_addColumnData_empty:
  "(foldl (addColumnData s) acc cols = []) = (acc = [] \<and> (\<forall>col \<in> set cols. \<not> supplies s col))"
proof (induction cols arbitrary: acc)
  case Nil
  show ?case by simp
next
  case (Cons col cols)
  show ?case
  proof (cases "supplies s col")
    case True
    then show ?thesis using Cons.IH [of "addColumnData s acc col"] addColumnData_cases(2) [of s col acc]
      by auto
  next
    case False
    then have "addColumnData s acc col = acc" using addColumnData_cases(1) [of s acc col] by simp
    then show ?thesis using Cons.IH [of acc] False by simp
  qed
qed

lemma generate_Some:
  "(generateSectionRowFromColumnData tbl s \<noteq> None) = (\<exists>col \<in> set (Table.columns tbl). supplies s col)"
  using foldl_addColumnData_empty [of s "[]" "Table.columns tbl"]
  by (auto simp add: generateSectionRowFromColumnData_def Let_def)

lemma length_scanRows: "length (scanRows h tbl s ledger raws i) = length raws"
  by (induction raws arbitrary: ledger i) (simp_all add: Let_def)

lemma tableSection_set:
  "tableSection (setTableSection t s rows) s = rows"
  by (cases s) (simp_all add: tableSection_def setTableSection_def)

lemma tableSection_settings_update:
  "tableSection (t\<lparr>Table.settings := st\<rparr>) s = tableSection t s"
  by (cases s) (simp_all add: tableSection_def)

lemma parseSection_length:
  "length (tableSection (parseSection h tbl s) s) =
     length (tableSection tbl s) + length (settingsSection (Table.settings tbl) s)
       + (if generatedRow tbl s = None then 0 else 1)"
  by (cases "generatedRow tbl s")
     (simp_all add: parseSection_def Let_def tableSection_set tableSection_settings_update
        length_scanRows)

text \<open>
  C7 as the claim states it fails for the foot: with the columns of Scenario B
  (a header, no footer) and no foot row given, column descriptors exist and
  the foot has no explicit row, and yet no foot row is generated
  (\<open>generateSectionRowFromColumnData\<close> returns \<^verbatim>\<open>null\<close>, line 320, and line 175
  guards the push).
\<close>

theorem C7_no_foot_counterexample:
  "length (settingsSection (Table.settings scenarioBColumns) Foot) = 0
   \<and> (case UserOptions.columns (Table.settings scenarioBColumns) of
        Value cols \<Rightarrow> length cols = 1 | _ \<Rightarrow> False)
   \<and> length (Table.foot scenarioBTable) = 0"
  by code_simp

text \<open>
  C7, amended: a row is generated for a section exactly when the section has
  no explicit row, columns were given, and at least one column supplies a
  value: for the head a column whose raw value is truthy (its header is used
  when truthy, else the raw value itself), for the foot a column with a truthy
  footer. A body row is never generated. The section gets one table row per
  explicit row, and one more when a row is generated. With the single column
  \<^verbatim>\<open>{dataKey: 'x', header: 'X'}\<close> and no explicit head, the generated head row is
  \<^verbatim>\<open>{x: 'X'}\<close>.
\<close>

theorem C7_generated_row:
  "(generatedRow tbl s \<noteq> None) =
      (settingsSection (Table.settings tbl) s = []
       \<and> (\<exists>cols. UserOptions.columns (Table.settings tbl) = Value cols)
       \<and> ((s = Head \<and> (\<exists>col \<in> set (Table.columns tbl). truthyColumn (Column.raw col)))
          \<or> (s = Foot \<and> (\<exists>col \<in> set (Table.columns tbl). \<exists>d c.
                 Column.raw col = ColObj d \<and> ColumnDef.footer d = Some c \<and> truthyCell c))))
   \<and> generatedRow tbl Body = None
   \<and> length (tableSection (parseSection h tbl s) s) =
       length (tableSection tbl s) + length (settingsSection (Table.settings tbl) s)
         + (if generatedRow tbl s = None then 0 else 1)
   \<and> (Table.columns tbl = [newColumn (KStr ''x'') (ColObj d) 0]
        \<and> ColumnDef.header d = Some (Scalar (JStr ''X''))
        \<and> settingsSection (Table.settings tbl) Head = []
        \<and> UserOptions.columns (Table.settings tbl) = Value cols
      \<longrightarrow> generatedRow tbl Head = Some (Keyed [(''x'', Given (Scalar (JStr ''X'')))]))"
proof (intro conjI impI)
  have cols: "(case UserOptions.columns (Table.settings tbl) of Value x \<Rightarrow> True | _ \<Rightarrow> False)
               = (\<exists>cols. UserOptions.columns (Table.settings tbl) = Value cols)"
    by (cases "UserOptions.columns (Table.settings tbl)") simp_all
  show "(generatedRow tbl s \<noteq> None) =
      (settingsSection (Table.settings tbl) s = []
       \<and> (\<exists>cols. UserOptions.columns (Table.settings tbl) = Value cols)
       \<and> ((s = Head \<and> (\<exists>col \<in> set (Table.columns tbl). truthyColumn (Column.raw col)))
          \<or> (s = Foot \<and> (\<exists>col \<in> set (Table.columns tbl). \<exists>d c.
                 Column.raw col = ColObj d \<and> ColumnDef.footer d = Some c \<and> truthyCell c))))"
    using generate_Some [of tbl s] cols
    by (cases s) (auto simp add: generatedRow_def Let_def supplies_def)
  show "generatedRow tbl Body = None"
    by (simp add: generatedRow_def Let_def)
  show "length (tableSection (parseSection h tbl s) s) =
       length (tableSection tbl s) + length (settingsSection (Table.settings tbl) s)
         + (if generatedRow tbl s = None then 0 else 1)"
    by (rule parseSection_length)
next
  assume a: "Table.columns tbl = [newColumn (KStr ''x'') (ColObj d) 0]
        \<and> ColumnDef.header d = Some (Scalar (JStr ''X''))
        \<and> settingsSection (Table.settings tbl) Head = []
        \<and> UserOptions.columns (Table.settings tbl) = Value cols"
  then show "generatedRow tbl Head = Some (Keyed [(''x'', Given (Scalar (JStr ''X'')))])"
    by (simp add: generatedRow_def Let_def generateSectionRowFromColumnData_def addColumnData_def
          newColumn_def headValue_def)
qed

theorem C7_generated_row_witness:
  "generatedRow scenarioBColumns Head = Some (Keyed [(''x'', Given (Scalar (JStr ''X'')))])
   \<and> length (Table.head scenarioBTable) = 1
   \<and> map_option Cell.text' (cellAt (hd (Table.head scenarioBTable)) (KStr ''x'')) = Some (Lines [''X''])
   \<and> length (Table.body scenarioBTable) = 2"
proof -
  have c: "Table.columns scenarioBColumns =
      [newColumn (KStr ''x'') (ColObj xColumn) 0]"
    by (simp add: scenarioBColumns_def scenarioB_def emptyOptions_def getTableColumns_def
          columnKey_def xColumn_def)
  have hx: "ColumnDef.header xColumn = Some (Scalar (JStr ''X''))"
    by (simp add: xColumn_def)
  have "length (settingsSection (Table.settings scenarioBColumns) Head) = 0" by code_simp
  then have e: "settingsSection (Table.settings scenarioBColumns) Head = []" by simp
  have "case UserOptions.columns (Table.settings scenarioBColumns) of
          Value cols \<Rightarrow> True | _ \<Rightarrow> False" by code_simp
  then obtain cols where v: "UserOptions.columns (Table.settings scenarioBColumns) = Value cols"
    by (cases "UserOptions.columns (Table.settings scenarioBColumns)") simp_all
  have r: "length (Table.head scenarioBTable) = 1
   \<and> map_option Cell.text' (cellAt (hd (Table.head scenarioBTable)) (KStr ''x'')) = Some (Lines [''X''])
   \<and> length (Table.body scenarioBTable) = 2" by code_simp
  from C7_generated_row [of scenarioBColumns Head exampleHost xColumn cols] c e v r hx
  show ?thesis
    by simp
qed

section \<open>Column widths fixed by a column style\<close>

lemma respectColumnStyles_keeps:
  "Column.index (respectColumnStyles sp c) = Column.index c"
  "Column.dataKey (respectColumnStyles sp c) = Column.dataKey c"
  by (simp_all add: respectColumnStyles_def Let_def split: option.split jsval.split)

lemma aggregateCell_keeps:
  "Column.index (aggregateCell sp c cell) = Column.index c"
  "Column.dataKey (aggregateCell sp c cell) = Column.dataKey c"
  by (simp_all add: aggregateCell_def Let_def respectColumnStyles_keeps split: option.split)


lemma columnOver_keeps:
  "Column.index (columnOver sp c rows) = Column.index c
   \<and> Column.dataKey (columnOver sp c rows) = Column.dataKey c"
  unfolding columnOver_def
  by (induction rows arbitrary: c) (simp_all add: aggregateCell_keeps)














section \<open>The grid builder\<close>




























section \<open>Running the parser again\<close>

text \<open>
  The parser pushes the rows it generates to \<^verbatim>\<open>settings.head\<close> and
  \<^verbatim>\<open>settings.foot\<close>, which may be arrays of the caller's, and the deprecated
  call form writes into its arguments. The lemmas below follow a second run
  on what the first run leaves.
\<close>

text \<open>What the grid builder reads of the table.\<close>

lemma cellStyles_cong:
  assumes "UserOptions.theme (Table.settings tbl') = UserOptions.theme (Table.settings tbl)"
    and "Table.styles tbl' = Table.styles tbl"
  shows "cellStyles h tbl' s column ri = cellStyles h tbl s column ri"
  unfolding cellStyles_def assms ..

lemma scanColumn_cong:
  assumes "UserOptions.theme (Table.settings tbl') = UserOptions.theme (Table.settings tbl)"
    and "Table.styles tbl' = Table.styles tbl"
  shows "scanColumn h tbl' s rawRow ri = scanColumn h tbl s rawRow ri"
  unfolding scanColumn_def cellStyles_cong [OF assms] ..

lemma scanRow_cong:
  assumes "UserOptions.theme (Table.settings tbl') = UserOptions.theme (Table.settings tbl)"
    and "Table.styles tbl' = Table.styles tbl"
    and "Table.columns tbl' = Table.columns tbl"
  shows "scanRow h tbl' s L rawRow ri = scanRow h tbl s L rawRow ri"
  unfolding scanRow_def scanColumn_cong [OF assms(1,2)] assms(3) ..

lemma scanRows_cong:
  assumes "UserOptions.theme (Table.settings tbl') = UserOptions.theme (Table.settings tbl)"
    and "Table.styles tbl' = Table.styles tbl"
    and "Table.columns tbl' = Table.columns tbl"
  shows "scanRows h tbl' s L raws ri = scanRows h tbl s L raws ri"
  by (induction raws arbitrary: L ri) (simp_all add: scanRow_cong [OF assms])

lemma generateSectionRow_cong:
  "Table.columns tbl' = Table.columns tbl \<Longrightarrow>
   generateSectionRowFromColumnData tbl' s = generateSectionRowFromColumnData tbl s"
  by (simp add: generateSectionRowFromColumnData_def)

lemma generatedRow_cong:
  assumes "Table.columns tbl' = Table.columns tbl"
    and "UserOptions.columns (Table.settings tbl') = UserOptions.columns (Table.settings tbl)"
    and "settingsSection (Table.settings tbl') s = settingsSection (Table.settings tbl) s"
  shows "generatedRow tbl' s = generatedRow tbl s"
  using assms generateSectionRow_cong [OF assms(1)] by (simp add: generatedRow_def)

text \<open>The raw rows of a section when the section has been parsed.\<close>

lemma settingsSection_set:
  "settingsSection (setSettingsSection st s rows) s = rows"
  by (cases s) (simp_all add: settingsSection_def setSettingsSection_def sectionRowsOf_def)

lemma settingsSection_set_other:
  "s' \<noteq> s \<Longrightarrow> settingsSection (setSettingsSection st s rows) s' = settingsSection st s'"
  by (cases s; cases s') (simp_all add: settingsSection_def setSettingsSection_def)

lemma setSettingsSection_fields:
  "UserOptions.theme (setSettingsSection st s rows) = UserOptions.theme st"
  "UserOptions.columns (setSettingsSection st s rows) = UserOptions.columns st"
  by (cases s; simp add: setSettingsSection_def)+

lemma setSettingsSection_twice:
  "setSettingsSection (setSettingsSection st s rows) s rows' = setSettingsSection st s rows'"
  by (cases s) (simp_all add: setSettingsSection_def)

lemma setSettingsSection_swap:
  "s' \<noteq> s \<Longrightarrow>
   setSettingsSection (setSettingsSection st s rows) s' rows'
     = setSettingsSection (setSettingsSection st s' rows') s rows"
  by (cases s; cases s') (simp_all add: setSettingsSection_def)

text \<open>A section parsed, in one equation.\<close>

lemma parseSection_eq:
  "parseSection h tbl s =
     setTableSection
       (case generatedRow tbl s of
          Some r \<Rightarrow> tbl\<lparr>Table.settings := setSettingsSection (Table.settings tbl) s (pushedRows tbl s)\<rparr>
        | None \<Rightarrow> tbl)
       s (tableSection tbl s @ scanRows h tbl s Map.empty (pushedRows tbl s) 0)"
proof (cases "generatedRow tbl s")
  case None
  then show ?thesis by (simp add: parseSection_def Let_def pushedRows_def)
next
  case (Some r)
  let ?t = "tbl\<lparr>Table.settings := setSettingsSection (Table.settings tbl) s
                  (settingsSection (Table.settings tbl) s @ [r])\<rparr>"
  have "scanRows h ?t s Map.empty raws 0 = scanRows h tbl s Map.empty raws 0" for raws
    by (rule scanRows_cong) (simp_all add: setSettingsSection_fields)
  moreover have "tableSection ?t s = tableSection tbl s"
    by (cases s) (simp_all add: tableSection_def)
  ultimately show ?thesis using Some by (simp add: parseSection_def Let_def pushedRows_def)
qed

lemma tableSection_settings:
  "tableSection (tbl\<lparr>Table.settings := st\<rparr>) s = tableSection tbl s"
  by (cases s) (simp_all add: tableSection_def)

lemma setTableSection_settings:
  "setTableSection (tbl\<lparr>Table.settings := st\<rparr>) s rows
     = (setTableSection tbl s rows)\<lparr>Table.settings := st\<rparr>"
  by (cases s) (simp_all add: setTableSection_def)

lemma setTableSection_fields:
  "Table.settings (setTableSection tbl s rows) = Table.settings tbl"
  "Table.columns (setTableSection tbl s rows) = Table.columns tbl"
  "Table.styles (setTableSection tbl s rows) = Table.styles tbl"
  by (cases s; simp add: setTableSection_def)+

lemma settingsSection_pushed:
  "settingsSection (Table.settings (parseSection h tbl s)) s = pushedRows tbl s"
  by (cases "generatedRow tbl s")
     (simp_all add: parseSection_eq setTableSection_fields settingsSection_set,
      simp add: pushedRows_def)

lemma parseSection_columns:
  "Table.columns (parseSection h tbl s) = Table.columns tbl"
  by (cases "generatedRow tbl s") (simp_all add: parseSection_eq setTableSection_fields)

lemma parseSection_settings_columns:
  "UserOptions.columns (Table.settings (parseSection h tbl s)) = UserOptions.columns (Table.settings tbl)"
  by (cases "generatedRow tbl s")
     (simp_all add: parseSection_eq setTableSection_fields setSettingsSection_fields)

lemma parseSection_other_section:
  "s' \<noteq> s \<Longrightarrow>
   settingsSection (Table.settings (parseSection h tbl s)) s' = settingsSection (Table.settings tbl) s'"
  by (cases "generatedRow tbl s")
     (simp_all add: parseSection_eq setTableSection_fields settingsSection_set_other)

lemma pushedRows_other_section:
  assumes "s' \<noteq> s"
  shows "pushedRows (parseSection h tbl s) s' = pushedRows tbl s'"
proof -
  have "generatedRow (parseSection h tbl s) s' = generatedRow tbl s'"
    by (rule generatedRow_cong)
       (simp_all add: parseSection_columns parseSection_settings_columns
          parseSection_other_section [OF assms])
  then show ?thesis
    by (simp add: pushedRows_def parseSection_other_section [OF assms])
qed

text \<open>The rows a section ends with, given to it from the start, change nothing.\<close>

lemma parseSection_absorb:
  assumes "rows = settingsSection (Table.settings tbl) s \<or> rows = pushedRows tbl s"
    and "setSettingsSection (Table.settings tbl) s (settingsSection (Table.settings tbl) s)
           = Table.settings tbl"
  shows "parseSection h (tbl\<lparr>Table.settings := setSettingsSection (Table.settings tbl) s rows\<rparr>) s
           = parseSection h tbl s"
proof (cases "generatedRow tbl s")
  case None
  then have "pushedRows tbl s = settingsSection (Table.settings tbl) s"
    by (simp add: pushedRows_def)
  with assms show ?thesis by simp
next
  case (Some r)
  show ?thesis
  proof (cases "rows = settingsSection (Table.settings tbl) s")
    case True
    with assms(2) show ?thesis by simp
  next
    case False
    from Some have empty: "settingsSection (Table.settings tbl) s = []"
      by (simp add: generatedRow_def Let_def split: if_splits)
    with Some have pushed: "pushedRows tbl s = [r]" by (simp add: pushedRows_def)
    with False assms(1) have rows: "rows = [r]" by simp
    let ?t = "tbl\<lparr>Table.settings := setSettingsSection (Table.settings tbl) s [r]\<rparr>"
    have none: "generatedRow ?t s = None"
      by (simp add: generatedRow_def settingsSection_set)
    then have pushed': "pushedRows ?t s = [r]"
      by (simp add: pushedRows_def settingsSection_set)
    have scan: "scanRows h ?t s Map.empty [r] 0 = scanRows h tbl s Map.empty [r] 0"
      by (rule scanRows_cong) (simp_all add: setSettingsSection_fields)
    have "parseSection h ?t s
            = setTableSection ?t s (tableSection tbl s @ scanRows h tbl s Map.empty [r] 0)"
      by (simp only: parseSection_eq [of h ?t s] none pushed' scan tableSection_settings
            option.case)
    also have "\<dots> = parseSection h tbl s"
      by (simp only: parseSection_eq [of h tbl s] Some pushed option.case)
    finally show ?thesis by (simp add: rows)
  qed
qed

text \<open>The rows of another section pass through a section unchanged.\<close>

lemma parseSection_commute:
  assumes "s' \<noteq> s"
  shows "parseSection h (tbl\<lparr>Table.settings := setSettingsSection (Table.settings tbl) s' rows\<rparr>) s
           = (parseSection h tbl s)
               \<lparr>Table.settings := setSettingsSection (Table.settings (parseSection h tbl s)) s' rows\<rparr>"
proof -
  let ?t = "tbl\<lparr>Table.settings := setSettingsSection (Table.settings tbl) s' rows\<rparr>"
  from assms have ne: "s \<noteq> s'" by simp
  have gen: "generatedRow ?t s = generatedRow tbl s"
    by (rule generatedRow_cong)
       (simp_all add: setSettingsSection_fields settingsSection_set_other [OF ne])
  then have pushed: "pushedRows ?t s = pushedRows tbl s"
    by (simp add: pushedRows_def settingsSection_set_other [OF ne])
  have scan: "scanRows h ?t s Map.empty raws 0 = scanRows h tbl s Map.empty raws 0" for raws
    by (rule scanRows_cong) (simp_all add: setSettingsSection_fields)
  show ?thesis
  proof (cases "generatedRow tbl s")
    case None
    then show ?thesis
      by (simp add: parseSection_eq [of h ?t s] parseSection_eq [of h tbl s] gen pushed scan
            tableSection_settings setTableSection_settings setTableSection_fields)
  next
    case (Some r)
    then show ?thesis
      by (simp add: parseSection_eq [of h ?t s] parseSection_eq [of h tbl s] gen pushed scan
            tableSection_settings setTableSection_settings setTableSection_fields
            setSettingsSection_swap [OF assms])
  qed
qed

lemma ownsRows_set_other:
  assumes "s' \<noteq> s" and "ownsRows st s'"
  shows "ownsRows (setSettingsSection st s rows) s'"
proof -
  have "setSettingsSection (setSettingsSection st s rows) s'
          (settingsSection (setSettingsSection st s rows) s')
        = setSettingsSection (setSettingsSection st s' (settingsSection st s')) s rows"
    using assms(1)
    by (simp add: settingsSection_set_other setSettingsSection_swap [of s' s])
  with assms(2) show ?thesis by (simp add: ownsRows_def)
qed

lemma ownsRows_parseSection:
  assumes "s' \<noteq> s" and "ownsRows (Table.settings tbl) s'"
  shows "ownsRows (Table.settings (parseSection h tbl s)) s'"
  using assms
  by (cases "generatedRow tbl s")
     (simp_all add: parseSection_eq setTableSection_fields ownsRows_set_other)

lemma ownsRows_Value:
  "UserOptions.head st = Value rows \<Longrightarrow> ownsRows st Head"
  "UserOptions.body st = Value rows \<Longrightarrow> ownsRows st Body"
  "UserOptions.foot st = Value rows \<Longrightarrow> ownsRows st Foot"
  by (simp_all add: ownsRows_def settingsSection_def setSettingsSection_def sectionRowsOf_def)

text \<open>
  The head and the foot rows that a run leaves in the settings can be given
  to the three sections from the start.
\<close>

lemma sections_absorb:
  assumes hv: "ownsRows (Table.settings tbl) Head"
    and fv: "ownsRows (Table.settings tbl) Foot"
    and hx: "hx = settingsSection (Table.settings tbl) Head \<or> hx = pushedRows tbl Head"
    and fx: "fx = settingsSection (Table.settings tbl) Foot \<or> fx = pushedRows tbl Foot"
  shows "foldl (parseSection h)
           (tbl\<lparr>Table.settings :=
                  setSettingsSection (setSettingsSection (Table.settings tbl) Head hx) Foot fx\<rparr>)
           [Head, Body, Foot]
         = foldl (parseSection h) tbl [Head, Body, Foot]"
proof -
  define a1 where "a1 = parseSection h tbl Head"
  define a2 where "a2 = parseSection h a1 Body"
  let ?x1 = "tbl\<lparr>Table.settings := setSettingsSection (Table.settings tbl) Head hx\<rparr>"
  let ?b = "?x1\<lparr>Table.settings := setSettingsSection (Table.settings ?x1) Foot fx\<rparr>"
  have x1: "parseSection h ?x1 Head = a1"
    unfolding a1_def using hx hv by (intro parseSection_absorb) (simp_all add: ownsRows_def)
  have b1: "parseSection h ?b Head
              = a1\<lparr>Table.settings := setSettingsSection (Table.settings a1) Foot fx\<rparr>"
    unfolding x1 [symmetric] by (rule parseSection_commute) simp
  have b2: "parseSection h (a1\<lparr>Table.settings := setSettingsSection (Table.settings a1) Foot fx\<rparr>) Body
              = a2\<lparr>Table.settings := setSettingsSection (Table.settings a2) Foot fx\<rparr>"
    unfolding a2_def by (rule parseSection_commute) simp
  have rows: "settingsSection (Table.settings a2) Foot = settingsSection (Table.settings tbl) Foot"
    by (simp add: a2_def a1_def parseSection_other_section)
  have pushed: "pushedRows a2 Foot = pushedRows tbl Foot"
    by (simp add: a2_def a1_def pushedRows_other_section)
  have owns: "ownsRows (Table.settings a2) Foot"
    unfolding a2_def a1_def using fv by (intro ownsRows_parseSection) simp_all
  have b3: "parseSection h (a2\<lparr>Table.settings := setSettingsSection (Table.settings a2) Foot fx\<rparr>) Foot
              = parseSection h a2 Foot"
    using fx owns by (intro parseSection_absorb) (simp_all add: rows pushed ownsRows_def)
  have "?b = tbl\<lparr>Table.settings :=
                    setSettingsSection (setSettingsSection (Table.settings tbl) Head hx) Foot fx\<rparr>"
    by simp
  then show ?thesis
    using b1 b2 b3 by (simp add: a1_def a2_def)
qed

lemma getTableColumns_sections:
  "UserOptions.columns st = Value inputs \<Longrightarrow>
   UserOptions.columns st' = Value inputs \<Longrightarrow> getTableColumns st' = getTableColumns st"
  by (simp add: getTableColumns_def)

lemma generatedRow_no_columns:
  "UserOptions.columns (Table.settings tbl) = Absent \<Longrightarrow> generatedRow tbl s = None"
  "UserOptions.columns (Table.settings tbl) = Nullish \<Longrightarrow> generatedRow tbl s = None"
  by (simp_all add: generatedRow_def)

lemma parseContent_absorb:
  assumes hv: "ownsRows (Table.settings tbl) Head"
    and fv: "ownsRows (Table.settings tbl) Foot"
    and hx: "hx = settingsSection (Table.settings tbl) Head
               \<or> hx = pushedRows (tbl\<lparr>Table.columns := getTableColumns (Table.settings tbl)\<rparr>) Head"
    and fx: "fx = settingsSection (Table.settings tbl) Foot
               \<or> fx = pushedRows (tbl\<lparr>Table.columns := getTableColumns (Table.settings tbl)\<rparr>) Foot"
  shows "parseContent h
           (tbl\<lparr>Table.settings :=
                  setSettingsSection (setSettingsSection (Table.settings tbl) Head hx) Foot fx\<rparr>)
         = parseContent h tbl"
proof -
  let ?st = "setSettingsSection (setSettingsSection (Table.settings tbl) Head hx) Foot fx"
  let ?x = "tbl\<lparr>Table.columns := getTableColumns (Table.settings tbl)\<rparr>"
  have cols: "getTableColumns ?st = getTableColumns (Table.settings tbl)"
  proof (cases "UserOptions.columns (Table.settings tbl)")
    case (Value inputs)
    then show ?thesis
      by (intro getTableColumns_sections [of _ inputs]) (simp_all add: setSettingsSection_fields)
  next
    case Absent
    then have "generatedRow ?x s = None" for s by (intro generatedRow_no_columns) simp
    then have "pushedRows ?x s = settingsSection (Table.settings tbl) s" for s
      by (simp add: pushedRows_def)
    with hx fx hv fv have "?st = Table.settings tbl"
      by (simp add: ownsRows_def)
    then show ?thesis by simp
  next
    case Nullish
    then have "generatedRow ?x s = None" for s by (intro generatedRow_no_columns) simp
    then have "pushedRows ?x s = settingsSection (Table.settings tbl) s" for s
      by (simp add: pushedRows_def)
    with hx fx hv fv have "?st = Table.settings tbl"
      by (simp add: ownsRows_def)
    then show ?thesis by simp
  qed
  define run where
    "run = (\<lambda>t. columnWidthPass (cellWidthPass h (foldl (parseSection h) t [Head, Body, Foot])))"
  have pc: "parseContent h t = run (t\<lparr>Table.columns := getTableColumns (Table.settings t)\<rparr>)" for t
    by (simp add: parseContent_def run_def Let_def)
  have "foldl (parseSection h)
          (?x\<lparr>Table.settings :=
                 setSettingsSection (setSettingsSection (Table.settings ?x) Head hx) Foot fx\<rparr>)
          [Head, Body, Foot]
        = foldl (parseSection h) ?x [Head, Body, Foot]"
    using hv fv hx fx by (intro sections_absorb) simp_all
  then have "run (?x\<lparr>Table.settings :=
                 setSettingsSection (setSettingsSection (Table.settings ?x) Head hx) Foot fx\<rparr>)
               = run ?x"
    unfolding run_def by (rule arg_cong)
  moreover have "(tbl\<lparr>Table.settings := ?st\<rparr>)\<lparr>Table.columns := getTableColumns ?st\<rparr>
                   = ?x\<lparr>Table.settings :=
                          setSettingsSection (setSettingsSection (Table.settings ?x) Head hx) Foot fx\<rparr>"
    by (simp add: cols)
  ultimately show ?thesis
    by (simp add: pc)
qed

text \<open>The settings that \<open>parseContent\<close> and the widths leave.\<close>

lemma cellWidthPass_settings:
  "Table.settings (cellWidthPass h tbl) = Table.settings tbl"
  by (simp add: cellWidthPass_def)

lemma columnWidthPass_settings:
  "Table.settings (columnWidthPass tbl) = Table.settings tbl"
  by (simp add: columnWidthPass_def)

lemma tableWidths_settings:
  "Table.settings (tableWidths h tbl) = Table.settings tbl"
  by (simp add: tableWidths_def Let_def split: jsval.splits)

lemma parseContent_settings:
  "Table.settings (parseContent h tbl)
     = Table.settings (foldl (parseSection h)
         (tbl\<lparr>Table.columns := getTableColumns (Table.settings tbl)\<rparr>) [Head, Body, Foot])"
  by (simp add: parseContent_def Let_def cellWidthPass_settings columnWidthPass_settings)

lemma parseContent_head:
  "settingsSection (Table.settings (parseContent h tbl)) Head
     = pushedRows (tbl\<lparr>Table.columns := getTableColumns (Table.settings tbl)\<rparr>) Head"
  by (simp add: parseContent_settings parseSection_other_section settingsSection_pushed)

lemma parseContent_foot:
  "settingsSection (Table.settings (parseContent h tbl)) Foot
     = pushedRows (tbl\<lparr>Table.columns := getTableColumns (Table.settings tbl)\<rparr>) Foot"
  by (simp add: parseContent_settings settingsSection_pushed pushedRows_other_section)

text \<open>An options object without its head and its foot.\<close>

lemma withoutSections_put:
  "withoutSections (opts\<lparr>UserOptions.head := x\<rparr>) = withoutSections opts"
  "withoutSections (opts\<lparr>UserOptions.foot := y\<rparr>) = withoutSections opts"
  by (simp_all add: withoutSections_def)

lemma withoutSections_eqD:
  assumes "withoutSections b = withoutSections a"
  shows "b = a\<lparr>UserOptions.head := UserOptions.head b, UserOptions.foot := UserOptions.foot b\<rparr>"
proof -
  have "b = (withoutSections b)\<lparr>UserOptions.head := UserOptions.head b,
                                  UserOptions.foot := UserOptions.foot b\<rparr>"
    by (simp add: withoutSections_def)
  also have "\<dots> = (withoutSections a)\<lparr>UserOptions.head := UserOptions.head b,
                                       UserOptions.foot := UserOptions.foot b\<rparr>"
    by (simp only: assms)
  also have "\<dots> = a\<lparr>UserOptions.head := UserOptions.head b, UserOptions.foot := UserOptions.foot b\<rparr>"
    by (simp add: withoutSections_def)
  finally show ?thesis .
qed

lemma later_Absent [simp]: "later x Absent = x"
  by (simp add: later_def)

lemma withoutSections_assignOptions:
  "withoutSections (assignOptions a b) = assignOptions (withoutSections a) (withoutSections b)"
  by (simp add: withoutSections_def assignOptions_def)

lemma assignOptions_head:
  "UserOptions.head (assignOptions a b) = later (UserOptions.head a) (UserOptions.head b)"
  "UserOptions.foot (assignOptions a b) = later (UserOptions.foot a) (UserOptions.foot b)"
  by (simp_all add: assignOptions_def)

lemma resolveSettings_eq:
  "resolveSettings h [g, d, t]
     = autoTheme (assignOptions (assignOptions (assignOptions
         (assignOptions emptyOptions (defaultConfig h)) g) d) t)"
  by (simp add: resolveSettings_def autoTheme_def Let_def)

lemma withoutSections_autoTheme:
  "withoutSections (autoTheme st) = autoTheme (withoutSections st)"
  by (simp add: withoutSections_def autoTheme_def)

lemma autoTheme_head:
  "UserOptions.head (autoTheme st) = UserOptions.head st"
  "UserOptions.foot (autoTheme st) = UserOptions.foot st"
  by (simp_all add: autoTheme_def)

lemma resolveSettings_withoutSections:
  assumes "withoutSections g' = withoutSections g"
    and "withoutSections d' = withoutSections d"
    and "withoutSections t' = withoutSections t"
  shows "withoutSections (resolveSettings h [g', d', t'])
           = withoutSections (resolveSettings h [g, d, t])"
  by (simp only: resolveSettings_eq withoutSections_autoTheme withoutSections_assignOptions assms)

lemma resolveSettings_head:
  "UserOptions.head (resolveSettings h [g, d, t])
     = later (later (later (UserOptions.head (defaultConfig h)) (UserOptions.head g))
          (UserOptions.head d)) (UserOptions.head t)"
  "UserOptions.foot (resolveSettings h [g, d, t])
     = later (later (later (UserOptions.foot (defaultConfig h)) (UserOptions.foot g))
          (UserOptions.foot d)) (UserOptions.foot t)"
  by (simp_all add: resolveSettings_eq autoTheme_head assignOptions_head emptyOptions_def later_def
        split: setting.splits)

text \<open>What does not read the head and the foot of the options.\<close>

lemma mergeStyleOptions_withoutSections:
  "mergeStyleOptions [g, d, t]
     = mergeStyleOptions [withoutSections g, withoutSections d, withoutSections t]"
  by (simp add: mergeStyleOptions_def withoutSections_def)

lemma collectHooks_withoutSections:
  "collectHooks [g, d, t]
     = collectHooks [withoutSections g, withoutSections d, withoutSections t]"
  by (simp add: collectHooks_def getHooks_def withoutSections_def)

lemma htmlContentOf_withoutSections:
  "htmlContentOf h st = htmlContentOf h (withoutSections st)"
  by (simp add: htmlContentOf_def withoutSections_def cong: setting.case_cong if_cong)

lemma getStartY_withoutSections:
  "getStartY h st y = getStartY h (withoutSections st) y"
  by (simp add: getStartY_def withoutSections_def)

lemma fields_withoutSections:
  "UserOptions.tableId opts = UserOptions.tableId (withoutSections opts)"
  "UserOptions.margin opts = UserOptions.margin (withoutSections opts)"
  "UserOptions.body opts = UserOptions.body (withoutSections opts)"
  "UserOptions.columns opts = UserOptions.columns (withoutSections opts)"
  by (simp_all add: withoutSections_def)

text \<open>The arrays written back.\<close>

lemma writeBack_other:
  assumes "\<And>opts. f (put opts rows) = f opts"
    and "writeBack get put rows (g, d, t) = (g', d', t')"
  shows "f g' = f g" and "f d' = f d" and "f t' = f t"
  using assms by (auto simp add: writeBack_def split: setting.splits)

lemma writeBack_chain:
  assumes "\<And>opts. get (put opts rows) = Value rows"
    and "writeBack get put rows (g, d, t) = (g', d', t')"
  shows "later (later (later c (get g')) (get d')) (get t')
           = later (later (later c (get g)) (get d)) (get t)
         \<or> later (later (later c (get g')) (get d')) (get t') = Value rows"
  using assms by (auto simp add: writeBack_def later_def split: setting.splits)

lemma writeBack_settled:
  assumes "\<And>opts. get (put opts rows) = Value rows"
  shows "settled get rows (writeBack get put rows gdt)"
  using assms
  by (cases gdt) (auto simp add: writeBack_def settled_def later_def split: setting.splits)

lemma settled_fixed:
  assumes "\<And>opts. get opts = Value rows \<Longrightarrow> put opts rows = opts"
    and "settled get rows gdt"
  shows "writeBack get put rows gdt = gdt"
  using assms
  by (cases gdt) (auto simp add: writeBack_def settled_def later_def split: setting.splits)

lemma settled_cong:
  assumes "get g' = get g" and "get d' = get d" and "get t' = get t"
  shows "settled get rows (g', d', t') = settled get rows (g, d, t)"
  using assms by (simp add: settled_def)

lemma writeBack_absent:
  assumes "get t = Absent" and "writeBack get put rows (g, d, t) = (g', d', t')"
  shows "t' = t"
  using assms by (auto simp add: writeBack_def split: setting.splits)

text \<open>The table of a second run, before its content is parsed.\<close>

lemma withSections_None:
  "withSections None st
     = st\<lparr>UserOptions.head := Value (sectionRowsOf (UserOptions.head st)),
          UserOptions.body := Value (sectionRowsOf (UserOptions.body st)),
          UserOptions.foot := Value (sectionRowsOf (UserOptions.foot st))\<rparr>"
  by (simp add: withSections_def)

lemma tableFor_settings:
  "Table.settings (tableFor h g d t)
     = withSections (htmlContentOf h (resolveSettings h [g, d, t])) (resolveSettings h [g, d, t])"
  by (simp add: tableFor_def Let_def newTable_def)

lemma tableFor_sections:
  assumes g: "withoutSections g' = withoutSections g"
    and d: "withoutSections d' = withoutSections d"
    and t: "withoutSections t' = withoutSections t"
    and html: "htmlContentOf h (resolveSettings h [g, d, t]) = None"
  shows "tableFor h g' d' t'
           = (tableFor h g d t)
               \<lparr>Table.settings :=
                  setSettingsSection
                    (setSettingsSection (Table.settings (tableFor h g d t)) Head
                       (sectionRowsOf (UserOptions.head (resolveSettings h [g', d', t']))))
                    Foot (sectionRowsOf (UserOptions.foot (resolveSettings h [g', d', t'])))\<rparr>"
proof -
  let ?s = "resolveSettings h [g, d, t]" and ?s' = "resolveSettings h [g', d', t']"
  have core: "withoutSections ?s' = withoutSections ?s"
    by (rule resolveSettings_withoutSections [OF g d t])
  have html': "htmlContentOf h ?s' = None"
    using html core by (simp add: htmlContentOf_withoutSections [of h ?s']
        htmlContentOf_withoutSections [of h ?s])
  have margin: "UserOptions.margin ?s' = UserOptions.margin ?s"
    using core by (simp add: fields_withoutSections(2) [of ?s'] fields_withoutSections(2) [of ?s])
  have body: "UserOptions.body ?s' = UserOptions.body ?s"
    using core by (simp add: fields_withoutSections(3) [of ?s'] fields_withoutSections(3) [of ?s])
  have startY: "getStartY h ?s' y = getStartY h ?s y" for y
    using core by (simp add: getStartY_withoutSections [of h ?s'] getStartY_withoutSections [of h ?s])
  have tableId: "UserOptions.tableId t' = UserOptions.tableId t"
    using t by (simp add: fields_withoutSections(1) [of t'] fields_withoutSections(1) [of t])
  have styles: "mergeStyleOptions [g', d', t'] = mergeStyleOptions [g, d, t]"
    by (simp only: mergeStyleOptions_withoutSections [of g' d' t']
          mergeStyleOptions_withoutSections [of g d t] g d t)
  have hooks: "collectHooks [g', d', t'] = collectHooks [g, d, t]"
    by (simp only: collectHooks_withoutSections [of g' d' t']
          collectHooks_withoutSections [of g d t] g d t)
  have "withSections None ?s'
          = setSettingsSection
              (setSettingsSection (withSections None ?s) Head (sectionRowsOf (UserOptions.head ?s')))
              Foot (sectionRowsOf (UserOptions.foot ?s'))"
    by (subst withoutSections_eqD [OF core])
       (simp add: withSections_None setSettingsSection_def body)
  then show ?thesis
    by (simp add: tableFor_def Let_def newTable_def html html' margin startY tableId styles hooks)
qed

text \<open>A run on the options, and a second run on the options it leaves.\<close>

lemma parseInput_resolveOptions:
  "parseInput h w args0 =
     (case parseUserArguments args0 of (tableOptions, args1) \<Rightarrow>
        (case resolveOptions h (World.globalOptions w, World.documentOptions w, tableOptions) of
           (tbl, g', d', t') \<Rightarrow>
             (tbl,
              \<lparr>World.globalOptions = g', World.documentOptions = d', World.currentTable = Some tbl\<rparr>,
              putArgs args1 t')))"
  by (simp add: parseInput_def resolveOptions_def Let_def split: prod.splits)

lemma put_head:
  "UserOptions.head (opts\<lparr>UserOptions.head := Value rows\<rparr>) = Value rows"
  "UserOptions.foot (opts\<lparr>UserOptions.head := Value rows\<rparr>) = UserOptions.foot opts"
  "UserOptions.head opts = Value rows \<Longrightarrow> opts\<lparr>UserOptions.head := Value rows\<rparr> = opts"
  by simp_all

lemma put_foot:
  "UserOptions.foot (opts\<lparr>UserOptions.foot := Value rows\<rparr>) = Value rows"
  "UserOptions.head (opts\<lparr>UserOptions.foot := Value rows\<rparr>) = UserOptions.head opts"
  "UserOptions.foot opts = Value rows \<Longrightarrow> opts\<lparr>UserOptions.foot := Value rows\<rparr> = opts"
  by simp_all

lemma resolveOptions_again:
  assumes run: "resolveOptions h (g, d, t) = (tbl, g', d', t')"
  shows "resolveOptions h (g', d', t') = (tbl, g', d', t')"
proof (cases "htmlContentOf h (resolveSettings h [g, d, t])")
  case (Some content)
  with run have "(g', d', t') = (g, d, t)"
    by (simp add: resolveOptions_def storeSections_def Let_def)
  with run show ?thesis by simp
next
  case None
  let ?putH = "\<lambda>opts rows. opts\<lparr>UserOptions.head := Value rows\<rparr>"
  let ?putF = "\<lambda>opts rows. opts\<lparr>UserOptions.foot := Value rows\<rparr>"
  define t0 where "t0 = tableFor h g d t"
  define x where "x = t0\<lparr>Table.columns := getTableColumns (Table.settings t0)\<rparr>"
  define hs where "hs = sectionRowsOf (UserOptions.head (Table.settings tbl))"
  define fs where "fs = sectionRowsOf (UserOptions.foot (Table.settings tbl))"
  from run have tbl: "tbl = tableWidths h (parseContent h t0)"
    by (simp add: resolveOptions_def Let_def t0_def)
  obtain g1 d1 t1 where first: "writeBack UserOptions.head ?putH hs (g, d, t) = (g1, d1, t1)"
    by (cases "writeBack UserOptions.head ?putH hs (g, d, t)") auto
  from run None have second: "writeBack UserOptions.foot ?putF fs (g1, d1, t1) = (g', d', t')"
    by (simp add: resolveOptions_def storeSections_def Let_def tbl [symmetric, unfolded t0_def]
          hs_def [symmetric] fs_def [symmetric] first)
  have hs: "hs = pushedRows x Head"
    using parseContent_head [of h t0]
    by (simp add: hs_def tbl tableWidths_settings settingsSection_def x_def)
  have fs: "fs = pushedRows x Foot"
    using parseContent_foot [of h t0]
    by (simp add: fs_def tbl tableWidths_settings settingsSection_def x_def)
  \<comment> \<open>the options differ from the first run's in the head and the foot only\<close>
  have core1: "withoutSections g1 = withoutSections g" "withoutSections d1 = withoutSections d"
      "withoutSections t1 = withoutSections t"
    using writeBack_other [of withoutSections ?putH hs, OF _ first]
    by (simp_all add: withoutSections_put)
  have core2: "withoutSections g' = withoutSections g1" "withoutSections d' = withoutSections d1"
      "withoutSections t' = withoutSections t1"
    using writeBack_other [of withoutSections ?putF fs, OF _ second]
    by (simp_all add: withoutSections_put)
  have core: "withoutSections g' = withoutSections g" "withoutSections d' = withoutSections d"
      "withoutSections t' = withoutSections t"
    using core1 core2 by simp_all
  have heads: "UserOptions.head g' = UserOptions.head g1" "UserOptions.head d' = UserOptions.head d1"
      "UserOptions.head t' = UserOptions.head t1"
    using writeBack_other [of UserOptions.head ?putF fs, OF _ second] by simp_all
  have feet: "UserOptions.foot g1 = UserOptions.foot g" "UserOptions.foot d1 = UserOptions.foot d"
      "UserOptions.foot t1 = UserOptions.foot t"
    using writeBack_other [of UserOptions.foot ?putH hs, OF _ first] by simp_all
  \<comment> \<open>the head and the foot of the second run's settings\<close>
  let ?s = "resolveSettings h [g, d, t]" and ?s' = "resolveSettings h [g', d', t']"
  have head': "UserOptions.head ?s' = UserOptions.head ?s \<or> UserOptions.head ?s' = Value hs"
    using writeBack_chain [of UserOptions.head ?putH hs g d t g1 d1 t1
            "UserOptions.head (defaultConfig h)", OF _ first]
    by (simp add: resolveSettings_head heads)
  have foot': "UserOptions.foot ?s' = UserOptions.foot ?s \<or> UserOptions.foot ?s' = Value fs"
    using writeBack_chain [of UserOptions.foot ?putF fs g1 d1 t1 g' d' t'
            "UserOptions.foot (defaultConfig h)", OF _ second]
    by (simp add: resolveSettings_head feet)
  have st0: "Table.settings t0 = withSections None ?s"
    by (simp add: t0_def tableFor_settings None)
  have rows0: "settingsSection (Table.settings t0) Head = sectionRowsOf (UserOptions.head ?s)"
      "settingsSection (Table.settings t0) Foot = sectionRowsOf (UserOptions.foot ?s)"
    by (simp_all add: st0 withSections_None settingsSection_def sectionRowsOf_def)
  have owns: "ownsRows (Table.settings t0) Head" "ownsRows (Table.settings t0) Foot"
    by (simp_all add: st0 withSections_None ownsRows_Value)
  have hx: "sectionRowsOf (UserOptions.head ?s') = settingsSection (Table.settings t0) Head
              \<or> sectionRowsOf (UserOptions.head ?s') = pushedRows x Head"
    using head' by (auto simp add: rows0 hs [symmetric] sectionRowsOf_def)
  have fx: "sectionRowsOf (UserOptions.foot ?s') = settingsSection (Table.settings t0) Foot
              \<or> sectionRowsOf (UserOptions.foot ?s') = pushedRows x Foot"
    using foot' by (auto simp add: rows0 fs [symmetric] sectionRowsOf_def)
  \<comment> \<open>the same table\<close>
  have "tableFor h g' d' t'
          = t0\<lparr>Table.settings :=
                 setSettingsSection
                   (setSettingsSection (Table.settings t0) Head (sectionRowsOf (UserOptions.head ?s')))
                   Foot (sectionRowsOf (UserOptions.foot ?s'))\<rparr>"
    unfolding t0_def by (rule tableFor_sections [OF core None])
  then have content: "parseContent h (tableFor h g' d' t') = parseContent h t0"
    using parseContent_absorb [OF owns hx [unfolded x_def] fx [unfolded x_def], of h] by simp
  \<comment> \<open>nothing more to write back\<close>
  have html': "htmlContentOf h ?s' = None"
    using None resolveSettings_withoutSections [OF core, of h]
    by (simp add: htmlContentOf_withoutSections [of h ?s'] htmlContentOf_withoutSections [of h ?s])
  have "settled UserOptions.head hs (g1, d1, t1)"
    using writeBack_settled [of UserOptions.head ?putH hs "(g, d, t)"] by (simp add: first)
  then have "settled UserOptions.head hs (g', d', t')"
    by (simp add: settled_cong [OF heads])
  then have again1: "writeBack UserOptions.head ?putH hs (g', d', t') = (g', d', t')"
    by (intro settled_fixed) simp_all
  have "settled UserOptions.foot fs (g', d', t')"
    using writeBack_settled [of UserOptions.foot ?putF fs "(g1, d1, t1)"] by (simp add: second)
  then have again2: "writeBack UserOptions.foot ?putF fs (g', d', t') = (g', d', t')"
    by (intro settled_fixed) simp_all
  show ?thesis
    by (simp add: resolveOptions_def Let_def content tbl [symmetric] storeSections_def html'
          hs_def [symmetric] fs_def [symmetric] again1 again2)
qed

lemma titleAsHeader_again:
  "titleAsHeader (titleAsHeader col) = titleAsHeader col"
  by (cases col)
     (auto simp add: titleAsHeader_def split: option.splits CellType.splits jsval.splits)

lemma resolveOptions_table_options:
  assumes "resolveOptions h (g, d, t) = (tbl, g', d', t')"
  shows "withoutSections t' = withoutSections t"
    and "UserOptions.head t = Absent \<Longrightarrow> UserOptions.foot t = Absent \<Longrightarrow> t' = t"
proof -
  let ?putH = "\<lambda>opts rows. opts\<lparr>UserOptions.head := Value rows\<rparr>"
  let ?putF = "\<lambda>opts rows. opts\<lparr>UserOptions.foot := Value rows\<rparr>"
  define hs where "hs = sectionRowsOf (UserOptions.head (Table.settings tbl))"
  define fs where "fs = sectionRowsOf (UserOptions.foot (Table.settings tbl))"
  obtain g1 d1 t1 where first: "writeBack UserOptions.head ?putH hs (g, d, t) = (g1, d1, t1)"
    by (cases "writeBack UserOptions.head ?putH hs (g, d, t)") auto
  from assms have tbl: "tableWidths h (parseContent h (tableFor h g d t)) = tbl"
    by (simp add: resolveOptions_def Let_def)
  from assms have "(g', d', t') = (g, d, t)
      \<or> writeBack UserOptions.foot ?putF fs (g1, d1, t1) = (g', d', t')"
    by (cases "htmlContentOf h (resolveSettings h [g, d, t])")
       (simp_all add: resolveOptions_def storeSections_def Let_def tbl
          hs_def [symmetric] fs_def [symmetric] first)
  then show "withoutSections t' = withoutSections t"
  proof
    assume "(g', d', t') = (g, d, t)"
    then show ?thesis by simp
  next
    assume second: "writeBack UserOptions.foot ?putF fs (g1, d1, t1) = (g', d', t')"
    have "withoutSections t1 = withoutSections t"
      using writeBack_other(3) [of withoutSections ?putH hs, OF _ first]
      by (simp add: withoutSections_put)
    moreover have "withoutSections t' = withoutSections t1"
      using writeBack_other(3) [of withoutSections ?putF fs, OF _ second]
      by (simp add: withoutSections_put)
    ultimately show ?thesis by simp
  qed
  assume absent: "UserOptions.head t = Absent" "UserOptions.foot t = Absent"
  from \<open>(g', d', t') = (g, d, t)
      \<or> writeBack UserOptions.foot ?putF fs (g1, d1, t1) = (g', d', t')\<close>
  show "t' = t"
  proof
    assume "(g', d', t') = (g, d, t)"
    then show ?thesis by simp
  next
    assume second: "writeBack UserOptions.foot ?putF fs (g1, d1, t1) = (g', d', t')"
    have t1: "t1 = t" by (rule writeBack_absent [OF absent(1) first])
    with absent(2) have "UserOptions.foot t1 = Absent" by simp
    then have "t' = t1" by (rule writeBack_absent [OF _ second])
    with t1 show ?thesis by simp
  qed
qed

lemma putArgs_again:
  "putArgs (putArgs args t) t' = putArgs args t'"
  by (simp add: putArgs_def split: Args.splits option.splits)

lemma parseUserArguments_again:
  assumes parsed: "parseUserArguments args0 = (tableOptions, args1)"
    and core: "withoutSections t' = withoutSections tableOptions"
    and absent: "UserOptions.head tableOptions = Absent \<Longrightarrow>
                 UserOptions.foot tableOptions = Absent \<Longrightarrow> t' = tableOptions"
  shows "parseUserArguments (putArgs args1 t') = (t', putArgs args1 t')"
proof (cases args0)
  case (Options opts)
  with parsed show ?thesis by (auto simp add: parseUserArguments_def putArgs_def)
next
  case (Legacy cols bodyRows given)
  define cols' where "cols' = map titleAsHeader cols"
  have cols: "map titleAsHeader cols' = cols'"
    by (simp add: cols'_def titleAsHeader_again)
  show ?thesis
  proof (cases given)
    case None
    with Legacy parsed have opts: "tableOptions
        = emptyOptions\<lparr>UserOptions.body := Value bodyRows, UserOptions.columns := Value cols'\<rparr>"
      and args1: "args1 = Legacy cols' bodyRows None"
      by (auto simp add: parseUserArguments_def Let_def cols'_def)
    from opts have "t' = tableOptions"
      by (intro absent) (simp_all add: emptyOptions_def)
    then show ?thesis
      by (simp add: args1 putArgs_def parseUserArguments_def Let_def cols opts)
  next
    case (Some opts1)
    with Legacy parsed have opts: "tableOptions
        = opts1\<lparr>UserOptions.body := Value bodyRows, UserOptions.columns := Value cols'\<rparr>"
      and args1: "args1 = Legacy cols' bodyRows (Some tableOptions)"
      by (auto simp add: parseUserArguments_def Let_def cols'_def)
    have "UserOptions.body t' = Value bodyRows" "UserOptions.columns t' = Value cols'"
      using core opts
      by (simp_all add: fields_withoutSections(3) [of t'] fields_withoutSections(4) [of t']
            withoutSections_def)
    then have "t'\<lparr>UserOptions.body := Value bodyRows, UserOptions.columns := Value cols'\<rparr> = t'"
      by simp
    then show ?thesis
      by (simp add: args1 putArgs_def parseUserArguments_def Let_def cols)
  qed
qed

text \<open>
  The generated head row is pushed to the caller's array: after the run the
  head of the options holds one row.
\<close>

lemma emptyHead_written_back:
  "(case parseInput exampleHost exampleWorld (Options emptyHead) of
      (tbl, w', args') \<Rightarrow>
        (case args' of
           Options t' \<Rightarrow> length (sectionRowsOf (UserOptions.head t'))
         | _ \<Rightarrow> 0)) = 1"
  by code_simp

text \<open>
  C9. A second run, on the options objects, the state and the arguments as the
  first run leaves them, returns the table of the first run and leaves
  everything as it found it.
\<close>

theorem C9_parseInput_again:
  "(case parseInput h w args0 of
      (tbl, w', args') \<Rightarrow> parseInput h w' args' = (tbl, w', args'))"
proof -
  obtain tableOptions args1 where parsed: "parseUserArguments args0 = (tableOptions, args1)"
    by (cases "parseUserArguments args0") auto
  obtain tbl g' d' t' where
    run: "resolveOptions h (World.globalOptions w, World.documentOptions w, tableOptions)
            = (tbl, g', d', t')"
    by (cases "resolveOptions h (World.globalOptions w, World.documentOptions w, tableOptions)")
       auto
  define w' where
    "w' = \<lparr>World.globalOptions = g', World.documentOptions = d', World.currentTable = Some tbl\<rparr>"
  have first: "parseInput h w args0 = (tbl, w', putArgs args1 t')"
    by (simp add: parseInput_resolveOptions parsed run w'_def)
  have parsed': "parseUserArguments (putArgs args1 t') = (t', putArgs args1 t')"
    by (rule parseUserArguments_again [OF parsed resolveOptions_table_options [OF run]])
  have "parseInput h w' (putArgs args1 t') = (tbl, w', putArgs args1 t')"
    by (simp add: parseInput_resolveOptions parsed' resolveOptions_again [OF run] putArgs_again
          w'_def)
  with first show ?thesis by simp
qed

end
